theory Spec2Isabelle
  imports Complex_Main
begin

section \<open>Python values\<close>

text \<open>
  The module \<^verbatim>\<open>backend/satellite_apis.py\<close> is a set of Django REST views over the
  Earth Engine client library. Request bodies, statistics returned by the service and
  response bodies are JSON values; a Python \<^verbatim>\<open>dict\<close> keeps insertion order and is an
  association list here. A Python float is a finite IEEE double, given as the rational
  it denotes (no \<^verbatim>\<open>nan\<close>/\<^verbatim>\<open>inf\<close>). The additions of the grid builder are double
  additions, rounded as the machine rounds them; the statistics that pass through
  \<^verbatim>\<open>round\<close> are rounded on their exact value.
\<close>

datatype json =
    JNull
  | JBool bool
  | JInt int
  | JFloat rat
  | JStr string
  | JArr "json list"
  | JObj "(string \<times> json) list"

datatype exn =
    ValueError string
  | TypeError string
  | EEException string
  | RuntimeError string
  | OverflowError string
  | IndexError string
  | KeyError string
  | AttributeError string

text \<open>\<^verbatim>\<open>str(e)\<close>: the message of an exception.\<close>

fun str_exn :: "exn \<Rightarrow> string" where
  "str_exn (ValueError m) = m"
| "str_exn (TypeError m) = m"
| "str_exn (EEException m) = m"
| "str_exn (RuntimeError m) = m"
| "str_exn (OverflowError m) = m"
| "str_exn (IndexError m) = m"
| "str_exn (KeyError m) = m"
| "str_exn (AttributeError m) = m"

text \<open>\<^verbatim>\<open>d.get(k)\<close> on a dict: the value, or \<^verbatim>\<open>None\<close> when the key is absent.\<close>

definition dict_get :: "(string \<times> json) list \<Rightarrow> string \<Rightarrow> json" where
  "dict_get d k = (case map_of d k of None \<Rightarrow> JNull | Some v \<Rightarrow> v)"

text \<open>Truthiness, as \<^verbatim>\<open>not x\<close> tests it.\<close>

fun truthy :: "json \<Rightarrow> bool" where
  "truthy JNull = False"
| "truthy (JBool b) = b"
| "truthy (JInt i) = (i \<noteq> 0)"
| "truthy (JFloat r) = (r \<noteq> 0)"
| "truthy (JStr s) = (s \<noteq> [])"
| "truthy (JArr xs) = (xs \<noteq> [])"
| "truthy (JObj kvs) = (kvs \<noteq> [])"

text \<open>
  \<^verbatim>\<open>k in x\<close> for a string \<open>k\<close>: key membership on a dict, element membership on a list,
  substring on a string, and a \<^verbatim>\<open>TypeError\<close> on anything else.
\<close>

definition contains_str :: "string \<Rightarrow> string \<Rightarrow> bool" where
  "contains_str k s = list_ex (\<lambda>i. take (length k) (drop i s) = k) [0..<Suc (length s)]"

fun py_in :: "string \<Rightarrow> json \<Rightarrow> exn + bool" where
  "py_in k (JObj d) = Inr (k \<in> set (map fst d))"
| "py_in k (JArr xs) = Inr (JStr k \<in> set xs)"
| "py_in k (JStr s) = Inr (contains_str k s)"
| "py_in k _ = Inl (TypeError ''argument is not iterable'')"

text \<open>\<^verbatim>\<open>x[k]\<close> for a string key \<open>k\<close>.\<close>

fun py_getitem :: "json \<Rightarrow> string \<Rightarrow> exn + json" where
  "py_getitem (JObj d) k = (case map_of d k of None \<Rightarrow> Inl (KeyError k) | Some v \<Rightarrow> Inr v)"
| "py_getitem _ k = Inl (TypeError ''indices must be integers'')"

text \<open>\<^verbatim>\<open>x.get(k)\<close>: only a dict has the method.\<close>

fun py_get :: "json \<Rightarrow> string \<Rightarrow> exn + json" where
  "py_get (JObj d) k = Inr (dict_get d k)"
| "py_get _ k = Inl (AttributeError ''object has no attribute get'')"

text \<open>\<^verbatim>\<open>len(x)\<close> and \<^verbatim>\<open>x[i]\<close> for an integer index \<open>i \<ge> 0\<close>.\<close>

fun py_len :: "json \<Rightarrow> exn + nat" where
  "py_len (JArr xs) = Inr (length xs)"
| "py_len (JStr s) = Inr (length s)"
| "py_len (JObj d) = Inr (length d)"
| "py_len _ = Inl (TypeError ''object has no len()'')"

fun py_index :: "json \<Rightarrow> nat \<Rightarrow> exn + json" where
  "py_index (JArr xs) i = (if i < length xs then Inr (xs ! i) else Inl (IndexError ''list index out of range''))"
| "py_index (JStr s) i = (if i < length s then Inr (JStr [s ! i]) else Inl (IndexError ''string index out of range''))"
| "py_index (JObj d) i = Inl (KeyError ''integer key'')"
| "py_index _ i = Inl (TypeError ''object is not subscriptable'')"

text \<open>
  \<^verbatim>\<open>float(x)\<close>. Parsing a string and converting an integer (which overflows beyond the
  double range) belong to the interpreter; they are parameters of the model.
\<close>

record runtime =
  float_of_str :: "string \<Rightarrow> rat option"
  float_of_int :: "int \<Rightarrow> rat option"

fun py_float :: "runtime \<Rightarrow> json \<Rightarrow> exn + rat" where
  "py_float rt (JFloat r) = Inr r"
| "py_float rt (JInt i) =
     (case float_of_int rt i of
        None \<Rightarrow> Inl (OverflowError ''int too large to convert to float'')
      | Some r \<Rightarrow> Inr r)"
| "py_float rt (JBool b) = Inr (if b then 1 else 0)"
| "py_float rt (JStr s) =
     (case float_of_str rt s of
        None \<Rightarrow> Inl (ValueError ''could not convert string to float'')
      | Some r \<Rightarrow> Inr r)"
| "py_float rt _ = Inl (TypeError ''float() argument must be a string or a real number'')"

text \<open>
  \<^verbatim>\<open>round(x, n)\<close>: a float is rounded to \<open>n\<close> decimals, ties to even; an integer is
  returned as it is; anything that is not a number raises \<^verbatim>\<open>TypeError\<close>.
\<close>

definition round_half_even :: "rat \<Rightarrow> nat \<Rightarrow> rat" where
  "round_half_even r n =
     (let x = r * 10 ^ n; f = \<lfloor>x\<rfloor>; d = x - of_int f
      in of_int (if d < 1 / 2 then f else if 1 / 2 < d then f + 1 else if even f then f else f + 1)
           / 10 ^ n)"

fun py_round :: "json \<Rightarrow> nat \<Rightarrow> exn + json" where
  "py_round (JFloat r) n = Inr (JFloat (round_half_even r n))"
| "py_round (JInt i) n = Inr (JInt i)"
| "py_round (JBool b) n = Inr (JInt (if b then 1 else 0))"
| "py_round _ n = Inl (TypeError ''type does not define __round__'')"

text \<open>
  Addition of doubles. The exact sum is rounded to the nearest double, ties to even: 53
  significant bits, with gradual underflow below \<^verbatim>\<open>2**-1022\<close>. \<open>ilog2 x\<close> is the
  exponent \<open>e\<close> with \<^verbatim>\<open>2**e <= |x| < 2**(e+1)\<close>. A sum beyond the largest double, which the
  machine turns into \<^verbatim>\<open>inf\<close>, has no value here and is rounded like any other.
\<close>

definition pow2 :: "int \<Rightarrow> rat" where
  "pow2 e = (if 0 \<le> e then 2 ^ nat e else 1 / 2 ^ nat (- e))"

function floorlog2 :: "int \<Rightarrow> int" where
  "floorlog2 n = (if n < 2 then 0 else 1 + floorlog2 (n div 2))"
  by pat_completeness auto
termination
  by (relation "measure nat") auto

declare floorlog2.simps [simp del]

definition ilog2 :: "rat \<Rightarrow> int" where
  "ilog2 x =
     (let (p, q) = quotient_of \<bar>x\<bar>;
          e0 = floorlog2 p - floorlog2 q
      in if pow2 e0 \<le> \<bar>x\<bar> then e0 else e0 - 1)"

definition round_to_double :: "rat \<Rightarrow> rat" where
  "round_to_double x =
     (if x = 0 then 0
      else (let e = max (ilog2 x) (- 1022); u = pow2 (e - 52)
            in round_half_even (x / u) 0 * u))"

definition double_add :: "rat \<Rightarrow> rat \<Rightarrow> rat" where
  "double_add x y = round_to_double (x + y)"

text \<open>The idiom \<^verbatim>\<open>round(v, n) if v is not None else None\<close>.\<close>

definition round_or_none :: "json \<Rightarrow> nat \<Rightarrow> exn + json" where
  "round_or_none v n = (if v \<noteq> JNull then py_round v n else Inr JNull)"

section \<open>Dates and \<^verbatim>\<open>relativedelta\<close>\<close>

text \<open>
  Only the calendar date of a \<^verbatim>\<open>datetime\<close> reaches the queries and the responses
  (\<^verbatim>\<open>strftime\<close> with \<^verbatim>\<open>%Y-%m-%d\<close>, \<^verbatim>\<open>%Y-%m\<close> and \<^verbatim>\<open>%B %Y\<close>), so a date is
  year, month and day. The range check of \<^verbatim>\<open>datetime\<close> on the year (1..9999) is not
  modelled.
\<close>

record date =
  year :: int
  month :: int
  day :: int

definition isleap :: "int \<Rightarrow> bool" where
  "isleap y = (y mod 4 = 0 \<and> (y mod 100 \<noteq> 0 \<or> y mod 400 = 0))"

text \<open>\<^verbatim>\<open>calendar.monthrange(year, month)[1]\<close>: the number of days of the month.\<close>

definition monthrange :: "int \<Rightarrow> int \<Rightarrow> int" where
  "monthrange y m =
     (if m = 2 then (if isleap y then 29 else 28)
      else if m = 4 \<or> m = 6 \<or> m = 9 \<or> m = 11 then 30 else 31)"

record relativedelta =
  years :: int
  months :: int

text \<open>
  \<^verbatim>\<open>relativedelta(months=n)\<close>: the constructor normalises more than 11 months into
  years (\<^verbatim>\<open>_fix\<close>).
\<close>

definition relativedelta_months :: "int \<Rightarrow> relativedelta" where
  "relativedelta_months n =
     (if \<bar>n\<bar> > 11
      then (let s = (if n < 0 then - 1 else 1) in
            \<lparr>years = ((n * s) div 12) * s, months = ((n * s) mod 12) * s\<rparr>)
      else \<lparr>years = 0, months = n\<rparr>)"

definition rd_neg :: "relativedelta \<Rightarrow> relativedelta" where
  "rd_neg r = \<lparr>years = - years r, months = - months r\<rparr>"

text \<open>
  \<^verbatim>\<open>dt + relativedelta\<close>: years and months are added, and the day is clamped to the
  length of the month reached.
\<close>

definition date_add :: "date \<Rightarrow> relativedelta \<Rightarrow> date" where
  "date_add dt r =
     (let y0 = year dt + years r;
          m0 = month dt + months r;
          y = (if months r \<noteq> 0 then (if m0 > 12 then y0 + 1 else if m0 < 1 then y0 - 1 else y0)
               else y0);
          m = (if months r \<noteq> 0 then (if m0 > 12 then m0 - 12 else if m0 < 1 then m0 + 12 else m0)
               else month dt)
      in \<lparr>year = y, month = m, day = min (monthrange y m) (day dt)\<rparr>)"

definition date_sub :: "date \<Rightarrow> relativedelta \<Rightarrow> date" where
  "date_sub dt r = date_add dt (rd_neg r)"

text \<open>The order of dates.\<close>

definition date_less :: "date \<Rightarrow> date \<Rightarrow> bool" where
  "date_less a b =
     (year a < year b \<or> (year a = year b \<and> (month a < month b \<or> (month a = month b \<and> day a < day b))))"

subsection \<open>\<^verbatim>\<open>strftime\<close>\<close>

fun digits :: "nat \<Rightarrow> string" where
  "digits n = (if n < 10 then [''0123456789'' ! n] else digits (n div 10) @ [''0123456789'' ! (n mod 10)])"

declare digits.simps [simp del]

definition zfill :: "nat \<Rightarrow> string \<Rightarrow> string" where
  "zfill w s = replicate (w - length s) CHR ''0'' @ s"

definition fmt_Y :: "date \<Rightarrow> string" where
  "fmt_Y d = zfill 4 (digits (nat (year d)))"

definition fmt_m :: "date \<Rightarrow> string" where
  "fmt_m d = zfill 2 (digits (nat (month d)))"

definition fmt_d :: "date \<Rightarrow> string" where
  "fmt_d d = zfill 2 (digits (nat (day d)))"

definition month_names :: "string list" where
  "month_names = [''January'', ''February'', ''March'', ''April'', ''May'', ''June'', ''July'',
     ''August'', ''September'', ''October'', ''November'', ''December'']"

definition fmt_B :: "date \<Rightarrow> string" where
  "fmt_B d = month_names ! (nat (month d - 1))"

text \<open>\<^verbatim>\<open>strftime('%Y-%m-%d')\<close>, \<^verbatim>\<open>strftime('%Y-%m')\<close> and \<^verbatim>\<open>strftime('%B %Y')\<close>.\<close>

definition strftime_Ymd :: "date \<Rightarrow> string" where
  "strftime_Ymd d = fmt_Y d @ ''-'' @ fmt_m d @ ''-'' @ fmt_d d"

definition strftime_Ym :: "date \<Rightarrow> string" where
  "strftime_Ym d = fmt_Y d @ ''-'' @ fmt_m d"

definition strftime_BY :: "date \<Rightarrow> string" where
  "strftime_BY d = fmt_B d @ '' '' @ fmt_Y d"

subsection \<open>\<^verbatim>\<open>strptime\<close>\<close>

text \<open>
  \<^verbatim>\<open>datetime.strptime(month, '%Y-%m')\<close>: the library matches the regular expression
  \<^verbatim>\<open>\d\d\d\d-(1[0-2]|0[1-9]|[1-9])\<close> at the start of the string and raises
  \<^verbatim>\<open>ValueError\<close> when it does not match, when text remains after the match or when the
  year is 0; a value that is not a string raises \<^verbatim>\<open>TypeError\<close>. Strings are ASCII
  here. The result is the first day of the month.
\<close>

definition digit_of :: "char \<Rightarrow> int option" where
  "digit_of c = map_of (zip ''0123456789'' [0, 1, 2, 3, 4, 5, 6, 7, 8, 9]) c"

fun parse_Y :: "string \<Rightarrow> int option" where
  "parse_Y [a, b, c, d] =
     (case (digit_of a, digit_of b, digit_of c, digit_of d) of
        (Some w, Some x, Some y, Some z) \<Rightarrow> Some (1000 * w + 100 * x + 10 * y + z)
      | _ \<Rightarrow> None)"
| "parse_Y _ = None"

fun parse_m :: "string \<Rightarrow> int option" where
  "parse_m [a] = (case digit_of a of Some x \<Rightarrow> (if 1 \<le> x then Some x else None) | None \<Rightarrow> None)"
| "parse_m [a, b] =
     (case (digit_of a, digit_of b) of
        (Some x, Some y) \<Rightarrow>
          (if x = 1 \<and> y \<le> 2 then Some (10 + y)
           else if x = 0 \<and> 1 \<le> y then Some y
           else None)
      | _ \<Rightarrow> None)"
| "parse_m _ = None"

fun strptime_Ym :: "json \<Rightarrow> exn + date" where
  "strptime_Ym (JStr s) =
     (if 5 \<le> length s \<and> s ! 4 = CHR ''-''
      then (case (parse_Y (take 4 s), parse_m (drop 5 s)) of
              (Some y, Some m) \<Rightarrow>
                (if 1 \<le> y then Inr \<lparr>year = y, month = m, day = 1\<rparr>
                 else Inl (ValueError ''year 0 is out of range''))
            | _ \<Rightarrow> Inl (ValueError ''time data does not match format''))
      else Inl (ValueError ''time data does not match format''))"
| "strptime_Ym _ = Inl (TypeError ''strptime() argument 1 must be str'')"

section \<open>The monthly task generator\<close>

text \<open>
  Every fan-out endpoint computes
  \<^verbatim>\<open>start_date = end_date - relativedelta(months=12)\<close> from \<^verbatim>\<open>end_date = datetime.now()\<close>,
  and task \<open>i\<close> computes
  \<^verbatim>\<open>month_start = start_date + relativedelta(months=month_index)\<close> and
  \<^verbatim>\<open>month_end = month_start + relativedelta(months=1)\<close>.
\<close>

definition start_date :: "date \<Rightarrow> date" where
  "start_date end_date = date_sub end_date (relativedelta_months 12)"

definition month_start :: "date \<Rightarrow> nat \<Rightarrow> date" where
  "month_start end_date month_index =
     date_add (start_date end_date) (relativedelta_months (int month_index))"

definition month_end :: "date \<Rightarrow> nat \<Rightarrow> date" where
  "month_end end_date month_index =
     date_add (month_start end_date month_index) (relativedelta_months 1)"

definition monthly_tasks :: "date \<Rightarrow> (date \<times> date) list" where
  "monthly_tasks end_date = map (\<lambda>i. (month_start end_date i, month_end end_date i)) [0..<12]"

section \<open>Earth Engine handles\<close>

text \<open>
  The Earth Engine client is lazy: its calls build a description of a computation
  (a handle), which the service evaluates when \<^verbatim>\<open>getInfo\<close> or \<^verbatim>\<open>getMapId\<close> is called.
  A handle is therefore a term; the constructors are the client calls the module makes.
  \<^verbatim>\<open>ee.ImageCollection.fromImages(images).mosaic()\<close> is the constructor \<open>mosaic\<close>, and
  \<^verbatim>\<open>.filter(ee.Filter.lt(name, value))\<close> is \<open>filter_lt\<close>.
\<close>

datatype geometry = Polygon json | Point json json

datatype mapped = maskS2SCL | addNDVI

datatype collection =
    ImageCollection string
  | filterBounds collection geometry
  | filterDate collection string string
  | filter_lt collection string int
  | map_over collection mapped
  | select collection "string list"

datatype image =
    median collection
  | Image_constant int
  | rename image string
  | clip image geometry
  | multiply image rat
  | subtract image rat
  | mosaic "image list"
  | neq image int
  | updateMask image image

section \<open>The grid builder\<close>

text \<open>
  \<^verbatim>\<open>create_grid_tiles\<close> is two nested \<^verbatim>\<open>while\<close> loops that append one polygon per
  cell. Every \<^verbatim>\<open>+\<close> and \<^verbatim>\<open>+=\<close> of the function is an addition of floats: it is the
  first argument of the model, and the views pass \<open>double_add\<close>. Nothing in the source
  bounds the number of iterations (a step that is not positive, or that is absorbed by
  the rounding of the sum, never reaches the upper bound), so the loops are partial
  functions: \<open>None\<close> is a loop that does not return.
\<close>

definition tile_bounds :: "(rat \<Rightarrow> rat \<Rightarrow> rat) \<Rightarrow> rat \<Rightarrow> rat \<Rightarrow> rat \<Rightarrow> rat \<Rightarrow> json" where
  "tile_bounds add lon lat lon_step lat_step =
     JArr [JArr [JArr [JFloat lon, JFloat lat],
                 JArr [JFloat lon, JFloat (add lat lat_step)],
                 JArr [JFloat (add lon lon_step), JFloat (add lat lat_step)],
                 JArr [JFloat (add lon lon_step), JFloat lat],
                 JArr [JFloat lon, JFloat lat]]]"

partial_function (option) lat_loop ::
  "(rat \<Rightarrow> rat \<Rightarrow> rat) \<Rightarrow> rat \<Rightarrow> rat \<Rightarrow> rat \<Rightarrow> rat \<Rightarrow> rat \<Rightarrow> geometry list \<Rightarrow> geometry list option" where
  "lat_loop add lon lat max_lat lon_step lat_step tiles =
     (if lat < max_lat
      then lat_loop add lon (add lat lat_step) max_lat lon_step lat_step
             (tiles @ [Polygon (tile_bounds add lon lat lon_step lat_step)])
      else Some tiles)"

partial_function (option) lon_loop ::
  "(rat \<Rightarrow> rat \<Rightarrow> rat) \<Rightarrow> rat \<Rightarrow> rat \<Rightarrow> rat \<Rightarrow> rat \<Rightarrow> rat \<Rightarrow> rat \<Rightarrow> geometry list \<Rightarrow> geometry list option" where
  "lon_loop add lon max_lon min_lat max_lat lon_step lat_step tiles =
     (if lon < max_lon
      then Option.bind (lat_loop add lon min_lat max_lat lon_step lat_step tiles)
             (\<lambda>tiles'. lon_loop add (add lon lon_step) max_lon min_lat max_lat lon_step lat_step tiles')
      else Some tiles)"

declare lat_loop.simps [code]
declare lon_loop.simps [code]

definition create_grid_tiles ::
  "(rat \<Rightarrow> rat \<Rightarrow> rat) \<Rightarrow> rat \<Rightarrow> rat \<Rightarrow> rat \<Rightarrow> rat \<Rightarrow> rat \<Rightarrow> geometry list option" where
  "create_grid_tiles add min_lon max_lon min_lat max_lat tile_size =
     (let lon_step = tile_size; lat_step = tile_size
      in lon_loop add min_lon max_lon min_lat max_lat lon_step lat_step [])"

subsection \<open>The region of a tile\<close>

text \<open>
  To state coverage, a polygon is read back as a region of the plane only when its
  single ring is an axis-parallel rectangle written in the order the grid builder uses,
  \<^verbatim>\<open>[[x0, y0], [x0, y1], [x1, y1], [x1, y0], [x0, y0]]\<close>; the region is then the
  rectangle, edges included. Any other polygon covers nothing.
\<close>

fun vertex :: "json \<Rightarrow> (rat \<times> rat) option" where
  "vertex (JArr [JFloat x, JFloat y]) = Some (x, y)"
| "vertex _ = None"

fun single_ring :: "geometry \<Rightarrow> json list option" where
  "single_ring (Polygon (JArr [JArr vs])) = Some vs"
| "single_ring _ = None"

definition rectangle :: "geometry \<Rightarrow> (rat \<times> rat \<times> rat \<times> rat) option" where
  "rectangle g =
     (case Option.bind (single_ring g) (\<lambda>vs. those (map vertex vs)) of
        Some [(a, b), (c, d), (e, f), (g, h), (i, j)] \<Rightarrow>
          (if a = c \<and> a = i \<and> e = g \<and> b = h \<and> b = j \<and> d = f then Some (a, e, b, d) else None)
      | _ \<Rightarrow> None)"

definition covers :: "geometry \<Rightarrow> rat \<Rightarrow> rat \<Rightarrow> bool" where
  "covers g x y =
     (case rectangle g of
        None \<Rightarrow> False
      | Some (x0, x1, y0, y1) \<Rightarrow> x0 \<le> x \<and> x \<le> x1 \<and> y0 \<le> y \<and> y \<le> y1)"


text \<open>
  The number of iterations of a loop from \<open>lo\<close> up to \<open>hi\<close> in exact steps of \<open>s\<close>, and
  the additions of such a loop being exact (no rounding).
\<close>

definition steps :: "rat \<Rightarrow> rat \<Rightarrow> rat \<Rightarrow> nat" where
  "steps lo hi s = nat \<lceil>(hi - lo) / s\<rceil>"

definition exact_steps :: "(rat \<Rightarrow> rat \<Rightarrow> rat) \<Rightarrow> rat \<Rightarrow> rat \<Rightarrow> rat \<Rightarrow> bool" where
  "exact_steps add lo hi s =
     list_all (\<lambda>k. add (lo + of_nat k * s) s = lo + of_nat k * s + s) [0..<steps lo hi s]"

section \<open>The external service\<close>

text \<open>
  Everything the module obtains from Earth Engine is a field of \<open>ee_service\<close>: a
  deterministic stub of the service is a value of this record. A call either returns
  or raises. \<open>construct_error\<close> says whether the client raises while an image handle
  is built; it is consulted for the handle of a tile (the \<^verbatim>\<open>try\<close> block of
  \<^verbatim>\<open>process_tile_month\<close>) and for the blank image the two \<^verbatim>\<open>except\<close> handlers
  build. An exception raised while the merged image of a month is built leaves
  \<^verbatim>\<open>process_month\<close> exactly as one raised by \<^verbatim>\<open>getMapId\<close> on it does, and is part of
  the outcome of \<open>getMapId\<close>; the same holds for the collections and the calls of
  \<^verbatim>\<open>getInfo\<close> on them. \<open>geometry_error\<close> says whether a geometry constructor rejects
  coordinates supplied by a request; the geometries built from the module's own
  constants are taken to be built without error. The reducer and \<^verbatim>\<open>maxPixels\<close>
  arguments of \<^verbatim>\<open>reduceRegion\<close> are constants of the module and are left out; its
  geometry and scale are kept.
\<close>

record ee_service =
  construct_error :: "image \<Rightarrow> exn option"
  geometry_error :: "geometry \<Rightarrow> exn option"
  getMapId :: "image \<Rightarrow> json \<Rightarrow> exn + string"
  size_getInfo :: "collection \<Rightarrow> exn + json"
  reduceRegion_getInfo :: "image \<Rightarrow> geometry \<Rightarrow> int \<Rightarrow> exn + (string \<times> json) list"
  sample_size_getInfo :: "image \<Rightarrow> geometry \<Rightarrow> int \<Rightarrow> exn + int"
  sample_first_getInfo :: "image \<Rightarrow> geometry \<Rightarrow> int \<Rightarrow> string \<Rightarrow> exn + json"
  getRegion_getInfo :: "collection \<Rightarrow> geometry \<Rightarrow> int \<Rightarrow> exn + json list"

section \<open>Responses\<close>

record response =
  data :: json
  status :: nat

definition Response :: "json \<Rightarrow> nat \<Rightarrow> response" where
  "Response body code = \<lparr>data = body, status = code\<rparr>"

text \<open>The two error shapes every view uses.\<close>

definition bad_request :: "string \<Rightarrow> response" where
  "bad_request msg = Response (JObj [(''success'', JBool False), (''error'', JStr msg)]) 400"

definition error_response :: "exn \<Rightarrow> response" where
  "error_response e = Response (JObj [(''success'', JBool False), (''error'', JStr (str_exn e))]) 500"

section \<open>The fan-out executor\<close>

text \<open>
  \<^verbatim>\<open>futures = [executor.submit(process_month, i) for i in range(12)]\<close> followed by
  \<^verbatim>\<open>[future.result() for future in futures]\<close>, inside \<^verbatim>\<open>try\<close>; on any exception the
  twelve months are computed again in a plain \<^verbatim>\<open>for\<close> loop.

  The thread pool is the environment: \<open>pool_failure\<close> says whether the pool of the given
  size fails outright, and \<open>schedule\<close> is the order in which the pool happened to start
  the tasks. A task is a function of its index (the service is a deterministic stub),
  so the schedule can influence the trace of calls but not the value of a task. Beside
  the result, the executor returns that trace: the month indices in the order in which
  \<^verbatim>\<open>process_month\<close> was started.
\<close>

record pool_env =
  pool_failure :: "nat \<Rightarrow> exn option"
  schedule :: "nat list"

fun collect_results :: "(exn + 'a) list \<Rightarrow> exn + 'a list" where
  "collect_results [] = Inr []"
| "collect_results (r # rs) =
     (case r of
        Inl e \<Rightarrow> Inl e
      | Inr v \<Rightarrow> (case collect_results rs of Inl e \<Rightarrow> Inl e | Inr vs \<Rightarrow> Inr (v # vs)))"

definition thread_pool :: "pool_env \<Rightarrow> nat \<Rightarrow> (nat \<Rightarrow> exn + 'a) \<Rightarrow> (exn + 'a list) \<times> nat list" where
  "thread_pool env max_workers task =
     (case pool_failure env max_workers of
        Some e \<Rightarrow> (Inl e, schedule env)
      | None \<Rightarrow> (collect_results (map task [0..<12]), schedule env))"

fun sequential :: "(nat \<Rightarrow> exn + 'a) \<Rightarrow> nat list \<Rightarrow> 'a list \<Rightarrow> nat list \<Rightarrow> (exn + 'a list) \<times> nat list" where
  "sequential task [] monthly_layers calls = (Inr monthly_layers, calls)"
| "sequential task (i # rest) monthly_layers calls =
     (case task i of
        Inl e \<Rightarrow> (Inl e, calls @ [i])
      | Inr layer \<Rightarrow> sequential task rest (monthly_layers @ [layer]) (calls @ [i]))"

definition fan_out :: "pool_env \<Rightarrow> nat \<Rightarrow> (nat \<Rightarrow> exn + 'a) \<Rightarrow> (exn + 'a list) \<times> nat list" where
  "fan_out env max_workers task =
     (case thread_pool env max_workers task of
        (Inr monthly_layers, calls) \<Rightarrow> (Inr monthly_layers, calls)
      | (Inl e, calls) \<Rightarrow> sequential task [0..<12] [] calls)"

section \<open>Queries shared by the views\<close>

text \<open>
  The Sentinel-2 NDVI collection and the MODIS LST collection are written out in full
  at every use in the source; the chains differ only in the region, the dates and the
  cloud-cover threshold, which are the arguments here.
\<close>

definition s2_ndvi :: "geometry \<Rightarrow> date \<Rightarrow> date \<Rightarrow> int \<Rightarrow> collection" where
  "s2_ndvi region m_start m_end cloud =
     select
       (map_over
          (map_over
             (filter_lt
                (filterDate
                   (filterBounds (ImageCollection ''COPERNICUS/S2_SR_HARMONIZED'') region)
                   (strftime_Ymd m_start) (strftime_Ymd m_end))
                ''CLOUDY_PIXEL_PERCENTAGE'' cloud)
             maskS2SCL)
          addNDVI)
       [''NDVI'']"

definition modis_lst :: "geometry \<Rightarrow> date \<Rightarrow> date \<Rightarrow> collection" where
  "modis_lst region m_start m_end =
     select
       (filterDate
          (filterBounds (ImageCollection ''MODIS/061/MOD11A2'') region)
          (strftime_Ymd m_start) (strftime_Ymd m_end))
       [''LST_Day_1km'']"

text \<open>\<^verbatim>\<open>.multiply(0.02).subtract(273.15)\<close>: scale factor, then Kelvin to Celsius.\<close>

definition to_celsius :: "image \<Rightarrow> image" where
  "to_celsius img = subtract (multiply img (1 / 50)) (5463 / 20)"

text \<open>Building a handle through the client: the handle, or the exception.\<close>

definition build :: "ee_service \<Rightarrow> image \<Rightarrow> exn + image" where
  "build svc img = (case construct_error svc img of None \<Rightarrow> Inr img | Some e \<Rightarrow> Inl e)"

text \<open>
  The loop over the grid tiles of \<^verbatim>\<open>process_month\<close>. Its \<^verbatim>\<open>except\<close> handler builds
  the blank image of the tile, and an exception of that propagates.
\<close>

fun tile_loop :: "(geometry \<Rightarrow> exn + image) \<Rightarrow> (geometry \<Rightarrow> exn + image) \<Rightarrow> geometry list \<Rightarrow> image list \<Rightarrow> exn + image list" where
  "tile_loop process blank [] tile_images = Inr tile_images"
| "tile_loop process blank (tile # rest) tile_images =
     (case process tile of
        Inr tile_image \<Rightarrow> tile_loop process blank rest (tile_images @ [tile_image])
      | Inl e \<Rightarrow>
          (case blank tile of
             Inr empty_tile \<Rightarrow> tile_loop process blank rest (tile_images @ [empty_tile])
           | Inl e' \<Rightarrow> Inl e'))"

section \<open>AmazonNDVIAPI\<close>

definition amazon_bounds :: json where
  "amazon_bounds =
     JArr [JArr [JArr [JFloat (- 74), JFloat (- 18)], JArr [JFloat (- 74), JFloat 12],
                 JArr [JFloat (- 34), JFloat 12], JArr [JFloat (- 34), JFloat (- 18)],
                 JArr [JFloat (- 74), JFloat (- 18)]]]"

definition amazon_aoi :: geometry where
  "amazon_aoi = Polygon amazon_bounds"

definition amazon_grid_tiles :: "geometry list option" where
  "amazon_grid_tiles = create_grid_tiles double_add (- 74) (- 34) (- 18) 12 5"

definition ndvi_blank :: "geometry \<Rightarrow> image" where
  "ndvi_blank tile = clip (rename (Image_constant 0) ''NDVI'') tile"

text \<open>The handle the \<^verbatim>\<open>try\<close> block of \<^verbatim>\<open>process_tile_month\<close> builds.\<close>

definition ndvi_tile_image :: "geometry \<Rightarrow> date \<Rightarrow> date \<Rightarrow> image" where
  "ndvi_tile_image tile m_start m_end = clip (median (s2_ndvi tile m_start m_end 30)) tile"

definition ndvi_process_tile_month :: "ee_service \<Rightarrow> geometry \<Rightarrow> date \<Rightarrow> date \<Rightarrow> exn + image" where
  "ndvi_process_tile_month svc tile m_start m_end =
     (case build svc (ndvi_tile_image tile m_start m_end) of
        Inr ndvi_tile \<Rightarrow> Inr ndvi_tile
      | Inl tile_error \<Rightarrow> build svc (ndvi_blank tile))"

definition ndvi_tile_images :: "ee_service \<Rightarrow> geometry list \<Rightarrow> date \<Rightarrow> date \<Rightarrow> exn + image list" where
  "ndvi_tile_images svc grid_tiles m_start m_end =
     tile_loop (\<lambda>tile. ndvi_process_tile_month svc tile m_start m_end)
       (\<lambda>tile. build svc (ndvi_blank tile)) grid_tiles []"

definition ndvi_whole_region :: "date \<Rightarrow> date \<Rightarrow> image" where
  "ndvi_whole_region m_start m_end =
     clip (median (s2_ndvi amazon_aoi m_start m_end 30)) amazon_aoi"

text \<open>The \<^verbatim>\<open>if tile_images: ... else: ...\<close> of \<^verbatim>\<open>process_month\<close>.\<close>

definition ndvi_merged :: "image list \<Rightarrow> date \<Rightarrow> date \<Rightarrow> image" where
  "ndvi_merged tile_images m_start m_end =
     (if tile_images \<noteq> []
      then (let merged_ndvi = clip (mosaic tile_images) amazon_aoi
            in updateMask merged_ndvi (neq merged_ndvi 0))
      else ndvi_whole_region m_start m_end)"

definition ndvi_palette :: json where
  "ndvi_palette = JArr [JStr ''#ff0000'', JStr ''#ffff00'', JStr ''#00ff00'']"

definition ndvi_vis_params :: json where
  "ndvi_vis_params = JObj [(''min'', JInt 0), (''max'', JFloat 1), (''palette'', ndvi_palette)]"

text \<open>The dictionary \<^verbatim>\<open>process_month\<close> returns.\<close>

definition ndvi_layer :: "date \<Rightarrow> string \<Rightarrow> nat \<Rightarrow> json" where
  "ndvi_layer m_start tile_url tiles_processed =
     JObj [(''month'', JStr (strftime_Ym m_start)),
           (''month_name'', JStr (strftime_BY m_start)),
           (''tile_url'', JStr tile_url),
           (''vis_params'', ndvi_vis_params),
           (''data_type'', JStr ''NDVI''),
           (''tiles_processed'', JInt (int tiles_processed)),
           (''grid_coverage'', JStr ''complete'')]"

definition amazon_ndvi_process_month :: "ee_service \<Rightarrow> geometry list \<Rightarrow> date \<Rightarrow> nat \<Rightarrow> exn + json" where
  "amazon_ndvi_process_month svc grid_tiles end_date month_index =
     (let m_start = month_start end_date month_index;
          m_end = month_end end_date month_index
      in case ndvi_tile_images svc grid_tiles m_start m_end of
           Inl e \<Rightarrow> Inl e
         | Inr tile_images \<Rightarrow>
             (let merged_ndvi = ndvi_merged tile_images m_start m_end
              in case getMapId svc merged_ndvi ndvi_vis_params of
                   Inl e \<Rightarrow> Inl e
                 | Inr tile_url \<Rightarrow> Inr (ndvi_layer m_start tile_url (length tile_images))))"

definition amazon_ndvi_max_workers :: nat where
  "amazon_ndvi_max_workers = 3"

definition amazon_ndvi_fan_out :: "ee_service \<Rightarrow> pool_env \<Rightarrow> geometry list \<Rightarrow> date \<Rightarrow> (exn + json list) \<times> nat list" where
  "amazon_ndvi_fan_out svc env grid_tiles end_date =
     fan_out env amazon_ndvi_max_workers (amazon_ndvi_process_month svc grid_tiles end_date)"

definition time_period :: "date \<Rightarrow> string" where
  "time_period end_date = strftime_Ym (start_date end_date) @ '' to '' @ strftime_Ym end_date"

definition processing_info :: "geometry list \<Rightarrow> json" where
  "processing_info grid_tiles =
     JObj [(''grid_tiles'', JInt (int (length grid_tiles))),
           (''tile_size_degrees'', JFloat 5),
           (''coverage_method'', JStr ''grid-based_tiling'')]"

definition ndvi_legend :: json where
  "ndvi_legend =
     JObj [(''title'', JStr ''NDVI Values''), (''min'', JInt 0), (''max'', JFloat 1),
           (''colors'', ndvi_palette),
           (''labels'', JArr [JStr ''Low Vegetation'', JStr ''Moderate Vegetation'',
                              JStr ''High Vegetation''])]"

definition AmazonNDVIAPI_get :: "ee_service \<Rightarrow> pool_env \<Rightarrow> date \<Rightarrow> response option" where
  "AmazonNDVIAPI_get svc env end_date =
     Option.bind amazon_grid_tiles (\<lambda>grid_tiles.
       Some (case fst (amazon_ndvi_fan_out svc env grid_tiles end_date) of
               Inl e \<Rightarrow> error_response e
             | Inr monthly_layers \<Rightarrow>
                 Response
                   (JObj [(''success'', JBool True),
                          (''region'', JStr ''Amazon Rainforest''),
                          (''data_type'', JStr ''NDVI''),
                          (''time_period'', JStr (time_period end_date)),
                          (''total_layers'', JInt 12),
                          (''monthly_layers'', JArr monthly_layers),
                          (''legend'', ndvi_legend),
                          (''aoi_bounds'', amazon_bounds),
                          (''processing_info'', processing_info grid_tiles)])
                   200))"

section \<open>AmazonLSTAPI\<close>

definition lst_blank :: "geometry \<Rightarrow> image" where
  "lst_blank tile = clip (rename (Image_constant 0) ''LST_Day_1km'') tile"

definition lst_tile_image :: "geometry \<Rightarrow> date \<Rightarrow> date \<Rightarrow> image" where
  "lst_tile_image tile m_start m_end =
     (let lst_tile = modis_lst tile m_start m_end
      in clip (to_celsius (median lst_tile)) tile)"

definition lst_process_tile_month :: "ee_service \<Rightarrow> geometry \<Rightarrow> date \<Rightarrow> date \<Rightarrow> exn + image" where
  "lst_process_tile_month svc tile m_start m_end =
     (case build svc (lst_tile_image tile m_start m_end) of
        Inr lst_tile_img \<Rightarrow> Inr lst_tile_img
      | Inl tile_error \<Rightarrow> build svc (lst_blank tile))"

definition lst_tile_images :: "ee_service \<Rightarrow> geometry list \<Rightarrow> date \<Rightarrow> date \<Rightarrow> exn + image list" where
  "lst_tile_images svc grid_tiles m_start m_end =
     tile_loop (\<lambda>tile. lst_process_tile_month svc tile m_start m_end)
       (\<lambda>tile. build svc (lst_blank tile)) grid_tiles []"

definition lst_whole_region :: "date \<Rightarrow> date \<Rightarrow> image" where
  "lst_whole_region m_start m_end =
     clip (to_celsius (median (modis_lst amazon_aoi m_start m_end))) amazon_aoi"

definition lst_merged :: "image list \<Rightarrow> date \<Rightarrow> date \<Rightarrow> image" where
  "lst_merged tile_images m_start m_end =
     (if tile_images \<noteq> []
      then (let merged_lst = clip (mosaic tile_images) amazon_aoi
            in updateMask merged_lst (neq merged_lst 0))
      else lst_whole_region m_start m_end)"

definition lst_palette :: json where
  "lst_palette =
     JArr [JStr ''#313695'', JStr ''#4575b4'', JStr ''#74add1'', JStr ''#abd9e9'', JStr ''#e0f3f8'',
           JStr ''#fee090'', JStr ''#fdae61'', JStr ''#f46d43'', JStr ''#d73027'', JStr ''#a50026'']"

definition lst_vis_params :: json where
  "lst_vis_params = JObj [(''min'', JInt 20), (''max'', JInt 40), (''palette'', lst_palette)]"

definition lst_layer :: "date \<Rightarrow> string \<Rightarrow> nat \<Rightarrow> json" where
  "lst_layer m_start tile_url tiles_processed =
     JObj [(''month'', JStr (strftime_Ym m_start)),
           (''month_name'', JStr (strftime_BY m_start)),
           (''tile_url'', JStr tile_url),
           (''vis_params'', lst_vis_params),
           (''data_type'', JStr ''LST''),
           (''unit'', JStr ''Celsius''),
           (''tiles_processed'', JInt (int tiles_processed)),
           (''grid_coverage'', JStr ''complete'')]"

definition amazon_lst_process_month :: "ee_service \<Rightarrow> geometry list \<Rightarrow> date \<Rightarrow> nat \<Rightarrow> exn + json" where
  "amazon_lst_process_month svc grid_tiles end_date month_index =
     (let m_start = month_start end_date month_index;
          m_end = month_end end_date month_index
      in case lst_tile_images svc grid_tiles m_start m_end of
           Inl e \<Rightarrow> Inl e
         | Inr tile_images \<Rightarrow>
             (let merged_lst = lst_merged tile_images m_start m_end
              in case getMapId svc merged_lst lst_vis_params of
                   Inl e \<Rightarrow> Inl e
                 | Inr tile_url \<Rightarrow> Inr (lst_layer m_start tile_url (length tile_images))))"

definition amazon_lst_max_workers :: nat where
  "amazon_lst_max_workers = 3"

definition amazon_lst_fan_out :: "ee_service \<Rightarrow> pool_env \<Rightarrow> geometry list \<Rightarrow> date \<Rightarrow> (exn + json list) \<times> nat list" where
  "amazon_lst_fan_out svc env grid_tiles end_date =
     fan_out env amazon_lst_max_workers (amazon_lst_process_month svc grid_tiles end_date)"

text \<open>The degree sign of the legend, as its two UTF-8 bytes.\<close>

definition deg :: string where
  "deg = [CHR 0xC2, CHR 0xB0]"

definition lst_legend :: json where
  "lst_legend =
     JObj [(''title'', JStr (''Land Surface Temperature ('' @ deg @ ''C)'')),
           (''min'', JInt 20), (''max'', JInt 40),
           (''colors'', lst_palette),
           (''labels'', JArr [JStr (''Cool (20'' @ deg @ ''C)''), JStr (''Moderate (25'' @ deg @ ''C)''),
                              JStr (''Warm (30'' @ deg @ ''C)''), JStr (''Hot (35'' @ deg @ ''C)''),
                              JStr (''Very Hot (40'' @ deg @ ''C)'')])]"

definition AmazonLSTAPI_get :: "ee_service \<Rightarrow> pool_env \<Rightarrow> date \<Rightarrow> response option" where
  "AmazonLSTAPI_get svc env end_date =
     Option.bind amazon_grid_tiles (\<lambda>grid_tiles.
       Some (case fst (amazon_lst_fan_out svc env grid_tiles end_date) of
               Inl e \<Rightarrow> error_response e
             | Inr monthly_layers \<Rightarrow>
                 Response
                   (JObj [(''success'', JBool True),
                          (''region'', JStr ''Amazon Rainforest''),
                          (''data_type'', JStr ''LST (Land Surface Temperature)''),
                          (''time_period'', JStr (time_period end_date)),
                          (''total_layers'', JInt 12),
                          (''monthly_layers'', JArr monthly_layers),
                          (''legend'', lst_legend),
                          (''aoi_bounds'', amazon_bounds),
                          (''processing_info'', processing_info grid_tiles)])
                   200))"

section \<open>CustomNDVIAPI\<close>

text \<open>
  The guard
  \<^verbatim>\<open>not isinstance(aoi_geojson, dict) or 'geometry' not in aoi_geojson or 'coordinates' not in aoi_geojson['geometry']\<close>:
  \<open>Inr True\<close> when the request is rejected, \<open>Inl\<close> when the last test itself raises.
\<close>

definition invalid_aoi_format :: "json \<Rightarrow> exn + bool" where
  "invalid_aoi_format aoi_geojson =
     (case aoi_geojson of
        JObj d \<Rightarrow>
          (case map_of d ''geometry'' of
             None \<Rightarrow> Inr True
           | Some g \<Rightarrow> (case py_in ''coordinates'' g of Inl e \<Rightarrow> Inl e | Inr b \<Rightarrow> Inr (\<not> b)))
      | _ \<Rightarrow> Inr True)"

text \<open>\<^verbatim>\<open>aoi_geojson['geometry']['coordinates']\<close>.\<close>

definition aoi_coordinates :: "json \<Rightarrow> exn + json" where
  "aoi_coordinates aoi_geojson =
     (case py_getitem aoi_geojson ''geometry'' of
        Inl e \<Rightarrow> Inl e
      | Inr g \<Rightarrow> py_getitem g ''coordinates'')"

text \<open>The statistics entry of one month, from the dictionary \<^verbatim>\<open>reduceRegion\<close> returned.\<close>

definition statistics_entry :: "(string \<times> json) list \<Rightarrow> string \<Rightarrow> nat \<Rightarrow> exn + json" where
  "statistics_entry stats band n =
     (let mean_val = dict_get stats (band @ ''_mean'');
          min_val = dict_get stats (band @ ''_min'');
          max_val = dict_get stats (band @ ''_max'')
      in case round_or_none mean_val n of
           Inl e \<Rightarrow> Inl e
         | Inr mean_r \<Rightarrow>
             (case round_or_none min_val n of
                Inl e \<Rightarrow> Inl e
              | Inr min_r \<Rightarrow>
                  (case round_or_none max_val n of
                     Inl e \<Rightarrow> Inl e
                   | Inr max_r \<Rightarrow>
                       Inr (JObj [(''mean'', mean_r), (''min'', min_r), (''max'', max_r)]))))"

definition custom_ndvi_collection :: "geometry \<Rightarrow> date \<Rightarrow> date \<Rightarrow> collection" where
  "custom_ndvi_collection aoi m_start m_end = s2_ndvi aoi m_start m_end 100"

definition custom_ndvi_process_month :: "ee_service \<Rightarrow> geometry \<Rightarrow> date \<Rightarrow> nat \<Rightarrow> exn + json" where
  "custom_ndvi_process_month svc aoi end_date month_index =
     (let m_start = month_start end_date month_index;
          m_end = month_end end_date month_index;
          s2_monthly = custom_ndvi_collection aoi m_start m_end
      in case size_getInfo svc s2_monthly of
           Inl e \<Rightarrow> Inl e
         | Inr image_count \<Rightarrow>
             (let ndvi_image = clip (median s2_monthly) aoi
              in case reduceRegion_getInfo svc ndvi_image aoi 10 of
                   Inl e \<Rightarrow> Inl e
                 | Inr stats \<Rightarrow>
                     (case statistics_entry stats ''NDVI'' 4 of
                        Inl e \<Rightarrow> Inl e
                      | Inr statistics \<Rightarrow>
                          Inr (JObj [(''month'', JStr (strftime_Ym m_start)),
                                     (''month_name'', JStr (strftime_BY m_start)),
                                     (''data_type'', JStr ''NDVI''),
                                     (''statistics'', statistics),
                                     (''data_available'',
                                        JBool (dict_get stats ''NDVI_mean'' \<noteq> JNull))]))))"

definition custom_ndvi_max_workers :: nat where
  "custom_ndvi_max_workers = 4"

definition custom_ndvi_fan_out :: "ee_service \<Rightarrow> pool_env \<Rightarrow> geometry \<Rightarrow> date \<Rightarrow> (exn + json list) \<times> nat list" where
  "custom_ndvi_fan_out svc env aoi end_date =
     fan_out env custom_ndvi_max_workers (custom_ndvi_process_month svc aoi end_date)"

definition CustomNDVIAPI_post :: "ee_service \<Rightarrow> pool_env \<Rightarrow> date \<Rightarrow> (string \<times> json) list \<Rightarrow> response" where
  "CustomNDVIAPI_post svc env end_date request_data =
     (let aoi_geojson = dict_get request_data ''geometry''
      in if \<not> truthy aoi_geojson then bad_request ''Missing geometry parameter''
         else
           (case invalid_aoi_format aoi_geojson of
              Inl e \<Rightarrow> error_response e
            | Inr True \<Rightarrow> bad_request ''Invalid AOI format''
            | Inr False \<Rightarrow>
                (case aoi_coordinates aoi_geojson of
                   Inl e \<Rightarrow> error_response e
                 | Inr coordinates \<Rightarrow>
                     (let aoi = Polygon coordinates
                      in case geometry_error svc aoi of
                           Some e \<Rightarrow> error_response e
                         | None \<Rightarrow>
                             (case fst (custom_ndvi_fan_out svc env aoi end_date) of
                                Inl e \<Rightarrow> error_response e
                              | Inr monthly_layers \<Rightarrow>
                                  Response
                                    (JObj [(''success'', JBool True),
                                           (''region'', JStr ''Custom AOI''),
                                           (''data_type'', JStr ''NDVI''),
                                           (''time_period'', JStr (time_period end_date)),
                                           (''total_months'', JInt 12),
                                           (''monthly_statistics'', JArr monthly_layers),
                                           (''aoi_bounds'', coordinates)])
                                    200)))))"

section \<open>CustomLSTAPI\<close>

definition custom_lst_process_month :: "ee_service \<Rightarrow> geometry \<Rightarrow> date \<Rightarrow> nat \<Rightarrow> exn + json" where
  "custom_lst_process_month svc aoi end_date month_index =
     (let m_start = month_start end_date month_index;
          m_end = month_end end_date month_index;
          lst_collection = modis_lst aoi m_start m_end;
          lst_image = clip (to_celsius (median lst_collection)) aoi
      in case reduceRegion_getInfo svc lst_image aoi 1000 of
           Inl e \<Rightarrow> Inl e
         | Inr stats \<Rightarrow>
             (case statistics_entry stats ''LST_Day_1km'' 2 of
                Inl e \<Rightarrow> Inl e
              | Inr statistics \<Rightarrow>
                  Inr (JObj [(''month'', JStr (strftime_Ym m_start)),
                             (''month_name'', JStr (strftime_BY m_start)),
                             (''data_type'', JStr ''LST''),
                             (''unit'', JStr ''Celsius''),
                             (''statistics'', statistics),
                             (''data_available'',
                                JBool (dict_get stats ''LST_Day_1km_mean'' \<noteq> JNull))])))"

definition custom_lst_max_workers :: nat where
  "custom_lst_max_workers = 4"

definition custom_lst_fan_out :: "ee_service \<Rightarrow> pool_env \<Rightarrow> geometry \<Rightarrow> date \<Rightarrow> (exn + json list) \<times> nat list" where
  "custom_lst_fan_out svc env aoi end_date =
     fan_out env custom_lst_max_workers (custom_lst_process_month svc aoi end_date)"

definition CustomLSTAPI_post :: "ee_service \<Rightarrow> pool_env \<Rightarrow> date \<Rightarrow> (string \<times> json) list \<Rightarrow> response" where
  "CustomLSTAPI_post svc env end_date request_data =
     (let aoi_geojson = dict_get request_data ''geometry''
      in if \<not> truthy aoi_geojson then bad_request ''Missing geometry parameter''
         else
           (case invalid_aoi_format aoi_geojson of
              Inl e \<Rightarrow> error_response e
            | Inr True \<Rightarrow> bad_request ''Invalid AOI format''
            | Inr False \<Rightarrow>
                (case aoi_coordinates aoi_geojson of
                   Inl e \<Rightarrow> error_response e
                 | Inr coordinates \<Rightarrow>
                     (let aoi = Polygon coordinates
                      in case geometry_error svc aoi of
                           Some e \<Rightarrow> error_response e
                         | None \<Rightarrow>
                             (case fst (custom_lst_fan_out svc env aoi end_date) of
                                Inl e \<Rightarrow> error_response e
                              | Inr monthly_layers \<Rightarrow>
                                  Response
                                    (JObj [(''success'', JBool True),
                                           (''region'', JStr ''Custom AOI''),
                                           (''data_type'', JStr ''LST (Land Surface Temperature)''),
                                           (''time_period'', JStr (time_period end_date)),
                                           (''total_months'', JInt 12),
                                           (''monthly_statistics'', JArr monthly_layers),
                                           (''aoi_bounds'', coordinates)])
                                    200)))))"

section \<open>The point views: validation\<close>

text \<open>
  \<^verbatim>\<open>PointNDVIMonthlyAPI.post\<close> and \<^verbatim>\<open>PointLSTMonthlyAPI.post\<close> begin with the same
  statements. A block of a view either falls through with a value, returns a response
  early, or raises (the \<^verbatim>\<open>except Exception\<close> of the view then answers 500).
\<close>

datatype 'a flow = Value 'a | Return response | Raise exn

text \<open>\<^verbatim>\<open>except (ValueError, TypeError)\<close> around the two calls of \<^verbatim>\<open>float\<close>.\<close>

fun float_handler :: "exn \<Rightarrow> (json \<times> json) flow" where
  "float_handler (ValueError m) = Return (bad_request ''Invalid latitude or longitude format'')"
| "float_handler (TypeError m) = Return (bad_request ''Invalid latitude or longitude format'')"
| "float_handler e = Raise e"

text \<open>The branch \<^verbatim>\<open>elif geometry is not None\<close>; the result is \<open>(lon, lat)\<close>.\<close>

definition point_of_geometry :: "json \<Rightarrow> (json \<times> json) flow" where
  "point_of_geometry geom =
     (case geom of
        JObj d \<Rightarrow>
          (case map_of d ''geometry'' of
             None \<Rightarrow> Return (bad_request ''Invalid geometry object format'')
           | Some geom_data \<Rightarrow>
               (case py_get geom_data ''type'' of
                  Inl e \<Rightarrow> Raise e
                | Inr t \<Rightarrow>
                    (if t \<noteq> JStr ''Point''
                     then Return (bad_request ''Invalid geometry format - expected Point'')
                     else
                       (case py_in ''coordinates'' geom_data of
                          Inl e \<Rightarrow> Raise e
                        | Inr False \<Rightarrow> Return (bad_request ''Invalid geometry format - expected Point'')
                        | Inr True \<Rightarrow>
                            (case py_getitem geom_data ''coordinates'' of
                               Inl e \<Rightarrow> Raise e
                             | Inr coords \<Rightarrow>
                                 (case py_len coords of
                                    Inl e \<Rightarrow> Raise e
                                  | Inr n \<Rightarrow>
                                      (if 2 \<le> n
                                       then (case py_index coords 0 of
                                               Inl e \<Rightarrow> Raise e
                                             | Inr lon \<Rightarrow>
                                                 (case py_index coords 1 of
                                                    Inl e \<Rightarrow> Raise e
                                                  | Inr lat \<Rightarrow> Value (lon, lat)))
                                       else Return (bad_request ''Invalid coordinates format''))))))))
      | _ \<Rightarrow> Return (bad_request ''Invalid geometry object format''))"

definition resolve_point :: "runtime \<Rightarrow> json \<Rightarrow> json \<Rightarrow> json \<Rightarrow> (json \<times> json) flow" where
  "resolve_point rt latitude longitude geom =
     (if latitude \<noteq> JNull \<and> longitude \<noteq> JNull
      then (case py_float rt latitude of
              Inl e \<Rightarrow> float_handler e
            | Inr lat \<Rightarrow>
                (case py_float rt longitude of
                   Inl e \<Rightarrow> float_handler e
                 | Inr lon \<Rightarrow> Value (JFloat lon, JFloat lat)))
      else if geom \<noteq> JNull then point_of_geometry geom
      else Return (bad_request ''Missing latitude/longitude or geometry parameter''))"

fun strptime_handler :: "exn \<Rightarrow> date flow" where
  "strptime_handler (ValueError m) = Return (bad_request ''Invalid month format (use YYYY-MM)'')"
| "strptime_handler (TypeError m) = Return (bad_request ''Invalid month format (use YYYY-MM)'')"
| "strptime_handler e = Raise e"

definition parse_month :: "json \<Rightarrow> date flow" where
  "parse_month mon =
     (if \<not> truthy mon then Return (bad_request ''Missing month parameter'')
      else (case strptime_Ym mon of
              Inl e \<Rightarrow> strptime_handler e
            | Inr month_date \<Rightarrow> Value month_date))"

text \<open>
  \<^verbatim>\<open>sampled = image.sample(point, scale)\<close>, its size and its first feature, inside
  \<^verbatim>\<open>try\<close>: any exception makes the value \<^verbatim>\<open>None\<close>.
\<close>

definition sample_value :: "ee_service \<Rightarrow> image \<Rightarrow> geometry \<Rightarrow> int \<Rightarrow> string \<Rightarrow> json" where
  "sample_value svc img point scale band =
     (case sample_size_getInfo svc img point scale of
        Inl sample_error \<Rightarrow> JNull
      | Inr sample_size \<Rightarrow>
          (if 0 < sample_size
           then (case sample_first_getInfo svc img point scale band of
                   Inl sample_error \<Rightarrow> JNull
                 | Inr v \<Rightarrow> v)
           else JNull))"

section \<open>PointNDVIMonthlyAPI\<close>

fun ndvi_rows :: "json list \<Rightarrow> json list \<Rightarrow> exn + json list" where
  "ndvi_rows [] ndvi_values = Inr ndvi_values"
| "ndvi_rows (row # rows) ndvi_values =
     (case py_index row 4 of
        Inl e \<Rightarrow> Inl e
      | Inr v \<Rightarrow>
          (if v \<noteq> JNull
           then (case py_round v 4 of
                   Inl e \<Rightarrow> Inl e
                 | Inr r \<Rightarrow> ndvi_rows rows (ndvi_values @ [r]))
           else ndvi_rows rows ndvi_values))"

definition ndvi_region_values :: "ee_service \<Rightarrow> collection \<Rightarrow> geometry \<Rightarrow> json list" where
  "ndvi_region_values svc s2_monthly point =
     (case getRegion_getInfo svc s2_monthly point 10 of
        Inl region_error \<Rightarrow> []
      | Inr all_values \<Rightarrow>
          (if 1 < length all_values
           then (case ndvi_rows (tl all_values) [] of Inl region_error \<Rightarrow> [] | Inr vs \<Rightarrow> vs)
           else []))"

definition point_ndvi_collection :: "geometry \<Rightarrow> date \<Rightarrow> date \<Rightarrow> collection" where
  "point_ndvi_collection point m_start m_end = s2_ndvi point m_start m_end 50"

definition point_ndvi_query :: "ee_service \<Rightarrow> json \<Rightarrow> json \<Rightarrow> json \<Rightarrow> date \<Rightarrow> response" where
  "point_ndvi_query svc lon lat mon month_date =
     (let point = Point lon lat
      in case geometry_error svc point of
           Some e \<Rightarrow> error_response e
         | None \<Rightarrow>
             (let m_start = month_date;
                  m_end = date_add m_start (relativedelta_months 1);
                  s2_monthly = point_ndvi_collection point m_start m_end
              in case size_getInfo svc s2_monthly of
                   Inl e \<Rightarrow> error_response e
                 | Inr image_count \<Rightarrow>
                     (let ndvi_image = median s2_monthly;
                          ndvi_value = sample_value svc ndvi_image point 10 ''NDVI'';
                          ndvi_values = ndvi_region_values svc s2_monthly point
                      in case round_or_none ndvi_value 4 of
                           Inl e \<Rightarrow> error_response e
                         | Inr median_ndvi \<Rightarrow>
                             Response
                               (JObj [(''success'', JBool True),
                                      (''location'', JObj [(''latitude'', lat), (''longitude'', lon)]),
                                      (''month'', mon),
                                      (''month_name'', JStr (strftime_BY m_start)),
                                      (''data_type'', JStr ''NDVI''),
                                      (''median_ndvi'', median_ndvi),
                                      (''all_ndvi_values'', JArr ndvi_values),
                                      (''image_count'', image_count),
                                      (''data_available'', JBool (ndvi_value \<noteq> JNull))])
                               200)))"

definition PointNDVIMonthlyAPI_post :: "runtime \<Rightarrow> ee_service \<Rightarrow> (string \<times> json) list \<Rightarrow> response" where
  "PointNDVIMonthlyAPI_post rt svc request_data =
     (let latitude = dict_get request_data ''latitude'';
          longitude = dict_get request_data ''longitude'';
          geom = dict_get request_data ''geometry'';
          mon = dict_get request_data ''month''
      in case resolve_point rt latitude longitude geom of
           Return r \<Rightarrow> r
         | Raise e \<Rightarrow> error_response e
         | Value (lon, lat) \<Rightarrow>
             (case parse_month mon of
                Return r \<Rightarrow> r
              | Raise e \<Rightarrow> error_response e
              | Value month_date \<Rightarrow> point_ndvi_query svc lon lat mon month_date))"

section \<open>PointLSTMonthlyAPI\<close>

text \<open>A number as an operand of \<^verbatim>\<open>*\<close> with a float.\<close>

fun py_num :: "json \<Rightarrow> exn + rat" where
  "py_num (JFloat r) = Inr r"
| "py_num (JInt i) = Inr (of_int i)"
| "py_num (JBool b) = Inr (if b then 1 else 0)"
| "py_num _ = Inl (TypeError ''unsupported operand type(s) for *'')"

fun lst_rows :: "json list \<Rightarrow> json list \<Rightarrow> exn + json list" where
  "lst_rows [] lst_values = Inr lst_values"
| "lst_rows (row # rows) lst_values =
     (case py_index row 4 of
        Inl e \<Rightarrow> Inl e
      | Inr v \<Rightarrow>
          (if v \<noteq> JNull
           then (case py_num v of
                   Inl e \<Rightarrow> Inl e
                 | Inr k \<Rightarrow>
                     (let celsius_val = k * (1 / 50) - 5463 / 20
                      in lst_rows rows (lst_values @ [JFloat (round_half_even celsius_val 2)])))
           else lst_rows rows lst_values))"

definition lst_region_values :: "ee_service \<Rightarrow> collection \<Rightarrow> geometry \<Rightarrow> json list" where
  "lst_region_values svc lst_collection point =
     (case getRegion_getInfo svc lst_collection point 1000 of
        Inl region_error \<Rightarrow> []
      | Inr all_values \<Rightarrow>
          (if 1 < length all_values
           then (case lst_rows (tl all_values) [] of Inl region_error \<Rightarrow> [] | Inr vs \<Rightarrow> vs)
           else []))"

definition point_lst_query :: "ee_service \<Rightarrow> json \<Rightarrow> json \<Rightarrow> json \<Rightarrow> date \<Rightarrow> response" where
  "point_lst_query svc lon lat mon month_date =
     (let point = Point lon lat
      in case geometry_error svc point of
           Some e \<Rightarrow> error_response e
         | None \<Rightarrow>
             (let m_start = month_date;
                  m_end = date_add m_start (relativedelta_months 1);
                  lst_collection = modis_lst point m_start m_end;
                  lst_image = to_celsius (median lst_collection);
                  lst_value = sample_value svc lst_image point 1000 ''LST_Day_1km'';
                  lst_values = lst_region_values svc lst_collection point
              in case round_or_none lst_value 2 of
                   Inl e \<Rightarrow> error_response e
                 | Inr median_lst \<Rightarrow>
                     Response
                       (JObj [(''success'', JBool True),
                              (''location'', JObj [(''latitude'', lat), (''longitude'', lon)]),
                              (''month'', mon),
                              (''month_name'', JStr (strftime_BY m_start)),
                              (''data_type'', JStr ''LST (Land Surface Temperature)''),
                              (''unit'', JStr ''Celsius''),
                              (''median_lst'', median_lst),
                              (''all_lst_values'', JArr lst_values),
                              (''data_available'', JBool (lst_value \<noteq> JNull))])
                       200))"

definition PointLSTMonthlyAPI_post :: "runtime \<Rightarrow> ee_service \<Rightarrow> (string \<times> json) list \<Rightarrow> response" where
  "PointLSTMonthlyAPI_post rt svc request_data =
     (let latitude = dict_get request_data ''latitude'';
          longitude = dict_get request_data ''longitude'';
          geom = dict_get request_data ''geometry'';
          mon = dict_get request_data ''month''
      in case resolve_point rt latitude longitude geom of
           Return r \<Rightarrow> r
         | Raise e \<Rightarrow> error_response e
         | Value (lon, lat) \<Rightarrow>
             (case parse_month mon of
                Return r \<Rightarrow> r
              | Raise e \<Rightarrow> error_response e
              | Value month_date \<Rightarrow> point_lst_query svc lon lat mon month_date))"

section \<open>Reading queries and responses\<close>

text \<open>The cloud-cover thresholds a collection, or the collections under an image, filter by.\<close>

fun cloud_thresholds :: "collection \<Rightarrow> int list" where
  "cloud_thresholds (ImageCollection name) = []"
| "cloud_thresholds (filterBounds c g) = cloud_thresholds c"
| "cloud_thresholds (filterDate c a b) = cloud_thresholds c"
| "cloud_thresholds (filter_lt c name v) =
     (if name = ''CLOUDY_PIXEL_PERCENTAGE'' then v # cloud_thresholds c else cloud_thresholds c)"
| "cloud_thresholds (map_over c f) = cloud_thresholds c"
| "cloud_thresholds (select c bands) = cloud_thresholds c"

fun image_thresholds :: "image \<Rightarrow> int list" where
  "image_thresholds (median c) = cloud_thresholds c"
| "image_thresholds (Image_constant k) = []"
| "image_thresholds (rename img n) = image_thresholds img"
| "image_thresholds (clip img g) = image_thresholds img"
| "image_thresholds (multiply img k) = image_thresholds img"
| "image_thresholds (subtract img k) = image_thresholds img"
| "image_thresholds (mosaic imgs) = concat (map image_thresholds imgs)"
| "image_thresholds (neq img k) = image_thresholds img"
| "image_thresholds (updateMask img m) = image_thresholds img"

text \<open>
  The value stored under a key of a JSON object, if the object has the key; and a field
  as \<^verbatim>\<open>.get\<close> reads it (\<^verbatim>\<open>null\<close> when absent).
\<close>

definition lookup :: "json \<Rightarrow> string \<Rightarrow> json option" where
  "lookup j k = (case j of JObj d \<Rightarrow> map_of d k | _ \<Rightarrow> None)"


definition field :: "json \<Rightarrow> string \<Rightarrow> json" where
  "field j k = (case j of JObj d \<Rightarrow> dict_get d k | _ \<Rightarrow> JNull)"

section \<open>What an image handle denotes\<close>

text \<open>
  The service evaluates a handle to an image of one band: at each pixel a value, or no
  value where the pixel is masked. The semantics follows the documented behaviour of the
  Earth Engine operations the module calls: \<^verbatim>\<open>clip\<close> masks the pixels outside the
  geometry; \<^verbatim>\<open>mosaic\<close> takes, at each pixel, the last image of the list that is not
  masked there; \<^verbatim>\<open>neq\<close> is 1 where the value differs and 0 where it is equal;
  \<^verbatim>\<open>updateMask\<close> masks the pixels where the mask image is 0 or masked. The contents
  of the archive (the median composite of a collection) and the region of a geometry are
  parameters.
\<close>

type_synonym pixel = "rat \<times> rat"

record archive =
  composite :: "collection \<Rightarrow> pixel \<Rightarrow> rat option"
  inside :: "geometry \<Rightarrow> pixel \<Rightarrow> bool"

fun last_unmasked :: "rat option list \<Rightarrow> rat option" where
  "last_unmasked [] = None"
| "last_unmasked (v # vs) = (case last_unmasked vs of Some w \<Rightarrow> Some w | None \<Rightarrow> v)"

fun pixel_value :: "archive \<Rightarrow> image \<Rightarrow> pixel \<Rightarrow> rat option" where
  "pixel_value a (median c) p = composite a c p"
| "pixel_value a (Image_constant k) p = Some (of_int k)"
| "pixel_value a (rename img n) p = pixel_value a img p"
| "pixel_value a (clip img g) p = (if inside a g p then pixel_value a img p else None)"
| "pixel_value a (multiply img k) p = map_option (\<lambda>v. v * k) (pixel_value a img p)"
| "pixel_value a (subtract img k) p = map_option (\<lambda>v. v - k) (pixel_value a img p)"
| "pixel_value a (mosaic imgs) p = last_unmasked (map (\<lambda>img. pixel_value a img p) imgs)"
| "pixel_value a (neq img k) p =
     map_option (\<lambda>v. if v \<noteq> of_int k then 1 else 0) (pixel_value a img p)"
| "pixel_value a (updateMask img m) p =
     (case pixel_value a m p of
        None \<Rightarrow> None
      | Some w \<Rightarrow> (if w = 0 then None else pixel_value a img p))"

section \<open>Deterministic stubs of the environment\<close>

text \<open>
  A service that answers every query and has no observation for any region or month
  (its map URL tells a masked mosaic from any other image); the same service with the
  handle of every tile failing while blank images can be built; a client that raises on
  every handle; a thread pool that works and one that fails outright; and an archive
  whose every composite has the value 0 inside the rectangle of a geometry.
\<close>

definition stub_runtime :: runtime where
  "stub_runtime = \<lparr>float_of_str = (\<lambda>s. None), float_of_int = (\<lambda>i. Some (of_int i))\<rparr>"

fun map_url :: "image \<Rightarrow> string" where
  "map_url (updateMask img m) = ''https://tiles.test/mosaic/{z}/{x}/{y}''"
| "map_url _ = ''https://tiles.test/region/{z}/{x}/{y}''"

definition stub_service :: ee_service where
  "stub_service =
     \<lparr>construct_error = (\<lambda>img. None),
      geometry_error = (\<lambda>g. None),
      getMapId = (\<lambda>img vis. Inr (map_url img)),
      size_getInfo = (\<lambda>c. Inr (JInt 0)),
      reduceRegion_getInfo = (\<lambda>img g scale. Inr []),
      sample_size_getInfo = (\<lambda>img g scale. Inr 0),
      sample_first_getInfo = (\<lambda>img g scale band. Inr JNull),
      getRegion_getInfo = (\<lambda>c g scale. Inr [])\<rparr>"




definition working_pool :: pool_env where
  "working_pool = \<lparr>pool_failure = (\<lambda>max_workers. None), schedule = [2, 0, 1, 5, 3, 4, 8, 6, 7, 11, 9, 10]\<rparr>"

definition failing_pool :: pool_env where
  "failing_pool =
     \<lparr>pool_failure = (\<lambda>max_workers. Some (RuntimeError ''can not start new thread'')), schedule = []\<rparr>"

definition zero_archive :: archive where
  "zero_archive = \<lparr>composite = (\<lambda>c p. Some 0), inside = (\<lambda>g p. covers g (fst p) (snd p))\<rparr>"

text \<open>
  Requests to the point views: a geometry object whose coordinates are text, the same
  text in the latitude and longitude fields, and two requests with the same numeric
  latitude, longitude and month but different geometry objects.
\<close>

definition text_geometry_request :: "(string \<times> json) list" where
  "text_geometry_request =
     [(''geometry'',
         JObj [(''geometry'',
                  JObj [(''type'', JStr ''Point''),
                        (''coordinates'', JArr [JStr ''abc'', JStr ''def''])])]),
      (''month'', JStr ''2024-01'')]"

definition text_latlon_request :: "(string \<times> json) list" where
  "text_latlon_request =
     [(''latitude'', JStr ''def''), (''longitude'', JStr ''abc''), (''month'', JStr ''2024-01'')]"

definition latlon_request :: "json \<Rightarrow> (string \<times> json) list" where
  "latlon_request geom =
     [(''latitude'', JFloat (- 3)), (''longitude'', JFloat (- 60)),
      (''geometry'', geom), (''month'', JStr ''2024-06'')]"

definition other_point :: json where
  "other_point =
     JObj [(''geometry'',
              JObj [(''type'', JStr ''Point''), (''coordinates'', JArr [JFloat 10, JFloat 20])])]"


text \<open>The value under key \<open>k\<close> of the object stored under key \<open>outer\<close>.\<close>

definition lookup_in :: "json \<Rightarrow> string \<Rightarrow> string \<Rightarrow> json option" where
  "lookup_in j outer k = Option.bind (lookup j outer) (\<lambda>inner. lookup inner k)"

section \<open>Properties of the monthly task generator\<close>

lemma length_monthly_tasks: "length (monthly_tasks end_date) = 12"
  by (simp add: monthly_tasks_def)

lemma monthrange_ge_28: "28 \<le> monthrange y m"
  by (simp add: monthrange_def)

lemma day_kept: "d \<le> 28 \<Longrightarrow> min (monthrange y m) d = d"
  using monthrange_ge_28[of y m] by simp

lemma start_date_eq:
  "start_date now = \<lparr>year = year now - 1, month = month now, day = min (monthrange (year now - 1) (month now)) (day now)\<rparr>"
  by (simp add: start_date_def date_sub_def date_add_def relativedelta_months_def rd_neg_def Let_def)

lemma month_start_eq:
  assumes "1 \<le> month now" "month now \<le> 12" "i < 12"
  shows "month_start now i =
    (let m0 = month now + int i; y = (if m0 > 12 then year now else year now - 1); m = (if m0 > 12 then m0 - 12 else m0)
     in \<lparr>year = y, month = m, day = min (monthrange y m) (min (monthrange (year now - 1) (month now)) (day now))\<rparr>)"
  using assms
  by (auto simp: month_start_def start_date_eq date_add_def relativedelta_months_def Let_def)

text \<open>
  What holds for every anchor date: each interval is one month long and not empty, no
  two intervals overlap, and they are consecutive when the anchor day is at most 28.
\<close>

lemma consecutive_when_day_le_28:
  assumes "1 \<le> month now" "month now \<le> 12" "day now \<le> 28" "i < 11"
  shows "month_end now i = month_start now (Suc i)"
proof -
  have i: "i < 12" "Suc i < 12" using assms(4) by auto
  show ?thesis
    unfolding month_end_def month_start_eq[OF assms(1,2) i(1)] month_start_eq[OF assms(1,2) i(2)]
    using assms
    by (auto simp: date_add_def relativedelta_months_def Let_def day_kept)
qed

lemma never_overlapping:
  assumes "1 \<le> month now" "month now \<le> 12" "i < 11"
  shows "\<not> date_less (month_start now (Suc i)) (month_end now i)"
proof -
  have i: "i < 12" "Suc i < 12" using assms(3) by auto
  define k where "k = month now + int i"
  define d where "d = min (monthrange (year now - 1) (month now)) (day now)"
  have k: "month now + int (Suc i) = k + 1" by (simp add: k_def)
  have e: "year (month_end now i) = year (month_start now (Suc i))
      \<and> month (month_end now i) = month (month_start now (Suc i))
      \<and> day (month_end now i) \<le> day (month_start now (Suc i))"
    unfolding month_end_def month_start_eq[OF assms(1,2) i(1)] month_start_eq[OF assms(1,2) i(2)]
      k k_def[symmetric] d_def[symmetric]
    using assms i by (auto simp: date_add_def relativedelta_months_def Let_def k_def)
  then show ?thesis by (auto simp: date_less_def)
qed

lemma ascending:
  assumes "1 \<le> month now" "month now \<le> 12" "i < 12"
  shows "date_less (month_start now i) (month_end now i)"
  unfolding month_end_def month_start_eq[OF assms]
  using assms
  by (auto simp: date_add_def relativedelta_months_def Let_def date_less_def)

text \<open>
  Claim C3 (consecutive monthly intervals). The generator always yields 12 intervals, but
  they are not always consecutive: \<^verbatim>\<open>month_end\<close> is computed from the already clamped
  \<^verbatim>\<open>month_start\<close>, not from \<^verbatim>\<open>start_date\<close>. Anchored at 31 January 2025, task 1
  is 2024-02-29 to 2024-03-29 and task 2 starts on 2024-03-31: the 29th and 30th of
  March fall in no interval.
\<close>

theorem monthly_tasks_gap_at_month_end:
  "monthly_tasks \<lparr>year = 2025, month = 1, day = 31\<rparr> ! 1
     = (\<lparr>year = 2024, month = 2, day = 29\<rparr>, \<lparr>year = 2024, month = 3, day = 29\<rparr>)
   \<and> monthly_tasks \<lparr>year = 2025, month = 1, day = 31\<rparr> ! 2
     = (\<lparr>year = 2024, month = 3, day = 31\<rparr>, \<lparr>year = 2024, month = 4, day = 30\<rparr>)
   \<and> date_less (snd (monthly_tasks \<lparr>year = 2025, month = 1, day = 31\<rparr> ! 1))
                 (fst (monthly_tasks \<lparr>year = 2025, month = 1, day = 31\<rparr> ! 2))"
  by code_simp

section \<open>Properties of the fan-out executor\<close>

lemma collect_results_Inr: "collect_results rs = Inr vs \<Longrightarrow> rs = map Inr vs"
  by (induction rs arbitrary: vs) (auto split: sum.splits)

lemma collect_results_map_nth:
  assumes "collect_results (map task xs) = Inr vs"
  shows "length vs = length xs \<and> (\<forall>i < length xs. task (xs ! i) = Inr (vs ! i))"
proof -
  have eq: "map task xs = map Inr vs" using collect_results_Inr[OF assms] .
  then have len: "length vs = length xs" by (metis length_map)
  have "task (xs ! i) = Inr (vs ! i)" if "i < length xs" for i
    using that eq len by (metis nth_map)
  with len show ?thesis by blast
qed

lemma sequential_fst:
  "fst (sequential task xs acc calls) =
     (case collect_results (map task xs) of Inl e \<Rightarrow> Inl e | Inr vs \<Rightarrow> Inr (acc @ vs))"
  by (induction xs arbitrary: acc calls) (auto split: sum.splits)

lemma sequential_prefix:
  "\<exists>n \<le> length xs. snd (sequential task xs acc calls) = calls @ take n xs"
proof (induction xs arbitrary: acc calls)
  case Nil
  then show ?case by simp
next
  case (Cons i xs)
  show ?case
  proof (cases "task i")
    case (Inl e)
    then show ?thesis by (intro exI[of _ 1]) simp
  next
    case (Inr v)
    from Cons[of "acc @ [v]" "calls @ [i]"] obtain n where
      "n \<le> length xs"
      "snd (sequential task xs (acc @ [v]) (calls @ [i])) = (calls @ [i]) @ take n xs"
      by blast
    then show ?thesis using Inr by (intro exI[of _ "Suc n"]) simp
  qed
qed

lemma sequential_all_ok:
  assumes "\<forall>i \<in> set xs. \<exists>v. task i = Inr v"
  shows "sequential task xs acc calls = (Inr (acc @ map (\<lambda>i. projr (task i)) xs), calls @ xs)"
  using assms by (induction xs arbitrary: acc calls) (auto split: sum.splits)

text \<open>
  Whatever the pool does, the result of the executor is the twelve task results collected
  in task order, or the exception of the first month (in task order) that raises.
\<close>

lemma fan_out_fst:
  "fst (fan_out env max_workers task) = collect_results (map task [0..<12])"
  by (auto simp: fan_out_def thread_pool_def sequential_fst
      split: option.splits sum.splits prod.splits)

text \<open>
  Claim C6 (worker cap, task order, sequential fallback). The four fan-out views run the
  executor with 3 or 4 workers. For any task: a result list has 12 entries and entry \<open>i\<close>
  is the result of month \<open>i\<close>; when the pool fails outright the executor is the plain loop
  over months 0..11; the loop starts the months in ascending order without a gap (its
  trace is \<open>[0..<n]\<close>, up to the first month that raises), and all twelve when none
  raises.
\<close>

theorem fan_out_order_and_fallback:
  "amazon_ndvi_fan_out svc env grid_tiles end_date
        = fan_out env 3 (amazon_ndvi_process_month svc grid_tiles end_date)
   \<and> amazon_lst_fan_out svc env grid_tiles end_date
        = fan_out env 3 (amazon_lst_process_month svc grid_tiles end_date)
   \<and> custom_ndvi_fan_out svc env aoi end_date
        = fan_out env 4 (custom_ndvi_process_month svc aoi end_date)
   \<and> custom_lst_fan_out svc env aoi end_date
        = fan_out env 4 (custom_lst_process_month svc aoi end_date)
   \<and> (\<forall>layers. fst (fan_out env max_workers task) = Inr layers
          \<longrightarrow> length layers = 12 \<and> (\<forall>i < 12. task i = Inr (layers ! i)))
   \<and> (\<forall>e. pool_failure env max_workers = Some e
          \<longrightarrow> fan_out env max_workers task = sequential task [0..<12] [] (schedule env))
   \<and> (\<exists>n \<le> 12. snd (sequential task [0..<12] [] calls) = calls @ [0..<n])
   \<and> ((\<forall>i < 12. \<exists>v. task i = Inr v)
          \<longrightarrow> sequential task [0..<12] [] calls
                = (Inr (map (\<lambda>i. projr (task i)) [0..<12]), calls @ [0..<12]))"
proof -
  have order: "length layers = 12 \<and> (\<forall>i < 12. task i = Inr (layers ! i))"
    if "fst (fan_out env max_workers task) = Inr layers" for layers
  proof -
    have "collect_results (map task [0..<12]) = Inr layers" using that by (simp only: fan_out_fst)
    from collect_results_map_nth[OF this] show ?thesis by simp
  qed
  have fallback: "fan_out env max_workers task = sequential task [0..<12] [] (schedule env)"
    if "pool_failure env max_workers = Some e" for e
    using that by (simp add: fan_out_def thread_pool_def)
  have trace: "\<exists>n \<le> 12. snd (sequential task [0..<12] [] calls) = calls @ [0..<n]"
  proof -
    from sequential_prefix[of "[0..<12]" task "[]" calls] obtain n where
      n: "n \<le> 12" "snd (sequential task [0..<12] [] calls) = calls @ take n [0..<12]" by auto
    have "take n [0..<12] = [0..<n]" using n(1) by (simp add: take_upt)
    with n show ?thesis by auto
  qed
  have all: "sequential task [0..<12] [] calls
                = (Inr (map (\<lambda>i. projr (task i)) [0..<12]), calls @ [0..<12])"
    if "\<forall>i < 12. \<exists>v. task i = Inr v"
    using sequential_all_ok[of "[0..<12]" task "[]" calls] that by simp
  have caps:
    "amazon_ndvi_fan_out svc env grid_tiles end_date
        = fan_out env 3 (amazon_ndvi_process_month svc grid_tiles end_date)"
    "amazon_lst_fan_out svc env grid_tiles end_date
        = fan_out env 3 (amazon_lst_process_month svc grid_tiles end_date)"
    "custom_ndvi_fan_out svc env aoi end_date
        = fan_out env 4 (custom_ndvi_process_month svc aoi end_date)"
    "custom_lst_fan_out svc env aoi end_date
        = fan_out env 4 (custom_lst_process_month svc aoi end_date)"
    by (simp_all add: amazon_ndvi_fan_out_def amazon_lst_fan_out_def custom_ndvi_fan_out_def
        custom_lst_fan_out_def amazon_ndvi_max_workers_def amazon_lst_max_workers_def
        custom_ndvi_max_workers_def custom_lst_max_workers_def)
  show ?thesis using caps order fallback trace all by blast
qed

lemma custom_ndvi_process_month_stub:
  "\<exists>v. custom_ndvi_process_month stub_service aoi end_date i = Inr v"
  by (simp add: custom_ndvi_process_month_def stub_service_def statistics_entry_def
      round_or_none_def dict_get_def Let_def)

theorem fan_out_order_and_fallback_witness:
  "pool_failure failing_pool 4 = Some (RuntimeError ''can not start new thread'')
   \<and> snd (custom_ndvi_fan_out stub_service failing_pool amazon_aoi \<lparr>year = 2025, month = 11, day = 3\<rparr>)
       = [0, 1, 2, 3, 4, 5, 6, 7, 8, 9, 10, 11]
   \<and> (\<exists>layers.
         fst (custom_ndvi_fan_out stub_service working_pool amazon_aoi \<lparr>year = 2025, month = 11, day = 3\<rparr>)
           = Inr layers
       \<and> length layers = 12
       \<and> custom_ndvi_process_month stub_service amazon_aoi \<lparr>year = 2025, month = 11, day = 3\<rparr> 7
           = Inr (layers ! 7))"
proof -
  let ?d = "\<lparr>year = 2025, month = 11, day = 3\<rparr>"
  let ?task = "custom_ndvi_process_month stub_service amazon_aoi ?d"
  have pf: "pool_failure failing_pool 4 = Some (RuntimeError ''can not start new thread'')"
    by (simp add: failing_pool_def)
  have ok: "\<forall>i < 12. \<exists>v. ?task i = Inr v" using custom_ndvi_process_month_stub by blast
  note f = fan_out_order_and_fallback[where svc = stub_service and env = failing_pool
      and aoi = amazon_aoi and end_date = ?d and max_workers = 4 and task = ?task and calls = "[]"]
  note w = fan_out_order_and_fallback[where svc = stub_service and env = working_pool
      and aoi = amazon_aoi and end_date = ?d and max_workers = 4 and task = ?task and calls = "[]"]
  have "custom_ndvi_fan_out stub_service failing_pool amazon_aoi ?d
      = sequential ?task [0..<12] [] (schedule failing_pool)"
    using f pf by metis
  moreover have "sequential ?task [0..<12] [] [] = (Inr (map (\<lambda>i. projr (?task i)) [0..<12]), [] @ [0..<12])"
    using f ok by blast
  ultimately have tr: "snd (custom_ndvi_fan_out stub_service failing_pool amazon_aoi ?d) = [0..<12]"
    by (simp add: failing_pool_def)
  have upt: "[0..<12] = [0, 1, 2, 3, 4, 5, 6, 7, 8, 9, 10, 11::nat]" by (simp add: upt_rec)
  obtain layers where l: "fst (custom_ndvi_fan_out stub_service working_pool amazon_aoi ?d) = Inr layers"
  proof -
    have "collect_results (map ?task [0..<12]) = fst (sequential ?task [0..<12] [] [])"
      by (simp add: sequential_fst split: sum.splits)
    also have "\<dots> = Inr (map (\<lambda>i. projr (?task i)) [0..<12])"
      using f ok by (metis (no_types, lifting) fst_conv)
    finally show ?thesis using that w by (simp add: fan_out_fst)
  qed
  then have "length layers = 12 \<and> (\<forall>i < 12. ?task i = Inr (layers ! i))"
    using w by metis
  then show ?thesis using pf tr upt l by auto
qed

section \<open>Determinism of the fan-out views\<close>

text \<open>
  Claim C7 (same input, same response). With the same service stub, the same anchor
  date and the same request, a fan-out view gives the same response whatever the thread
  pool does (any schedule, any pool failure): the same monthly entries in the same order
  and the same JSON. The monthly results are those of months 0..11 in this order.
\<close>

theorem fan_out_views_deterministic:
  "AmazonNDVIAPI_get svc env1 end_date = AmazonNDVIAPI_get svc env2 end_date
   \<and> AmazonLSTAPI_get svc env1 end_date = AmazonLSTAPI_get svc env2 end_date
   \<and> CustomNDVIAPI_post svc env1 end_date request_data = CustomNDVIAPI_post svc env2 end_date request_data
   \<and> CustomLSTAPI_post svc env1 end_date request_data = CustomLSTAPI_post svc env2 end_date request_data
   \<and> fst (amazon_ndvi_fan_out svc env1 grid_tiles end_date)
        = collect_results (map (amazon_ndvi_process_month svc grid_tiles end_date) [0..<12])
   \<and> fst (amazon_lst_fan_out svc env1 grid_tiles end_date)
        = collect_results (map (amazon_lst_process_month svc grid_tiles end_date) [0..<12])
   \<and> fst (custom_ndvi_fan_out svc env1 aoi end_date)
        = collect_results (map (custom_ndvi_process_month svc aoi end_date) [0..<12])
   \<and> fst (custom_lst_fan_out svc env1 aoi end_date)
        = collect_results (map (custom_lst_process_month svc aoi end_date) [0..<12])"
proof -
  have a: "fst (amazon_ndvi_fan_out svc env g end_date)
        = collect_results (map (amazon_ndvi_process_month svc g end_date) [0..<12])" for env g
    by (simp only: amazon_ndvi_fan_out_def fan_out_fst)
  have b: "fst (amazon_lst_fan_out svc env g end_date)
        = collect_results (map (amazon_lst_process_month svc g end_date) [0..<12])" for env g
    by (simp only: amazon_lst_fan_out_def fan_out_fst)
  have c: "fst (custom_ndvi_fan_out svc env r end_date)
        = collect_results (map (custom_ndvi_process_month svc r end_date) [0..<12])" for env r
    by (simp only: custom_ndvi_fan_out_def fan_out_fst)
  have d: "fst (custom_lst_fan_out svc env r end_date)
        = collect_results (map (custom_lst_process_month svc r end_date) [0..<12])" for env r
    by (simp only: custom_lst_fan_out_def fan_out_fst)
  have "AmazonNDVIAPI_get svc env1 end_date = AmazonNDVIAPI_get svc env2 end_date"
    by (simp only: AmazonNDVIAPI_get_def a)
  moreover have "AmazonLSTAPI_get svc env1 end_date = AmazonLSTAPI_get svc env2 end_date"
    by (simp only: AmazonLSTAPI_get_def b)
  moreover have "CustomNDVIAPI_post svc env1 end_date request_data
      = CustomNDVIAPI_post svc env2 end_date request_data"
    by (simp only: CustomNDVIAPI_post_def c)
  moreover have "CustomLSTAPI_post svc env1 end_date request_data
      = CustomLSTAPI_post svc env2 end_date request_data"
    by (simp only: CustomLSTAPI_post_def d)
  ultimately show ?thesis using a b c d by blast
qed

section \<open>Properties of the grid builder\<close>







lemma steps_Suc: "0 < s \<Longrightarrow> lo < hi \<Longrightarrow> steps lo hi s = Suc (steps (lo + s) hi s)"
proof -
  assume s: "0 < s" and lt: "lo < hi"
  have "(hi - lo) / s = (hi - (lo + s)) / s + 1" using s by (simp add: field_simps)
  then have c: "\<lceil>(hi - lo) / s\<rceil> = \<lceil>(hi - (lo + s)) / s\<rceil> + 1" by simp
  have "0 < (hi - lo) / s" using s lt by simp
  then have "0 < \<lceil>(hi - lo) / s\<rceil>" by simp
  with c have "0 \<le> \<lceil>(hi - (lo + s)) / s\<rceil>" by linarith
  then have "nat (\<lceil>(hi - (lo + s)) / s\<rceil> + 1) = Suc (nat \<lceil>(hi - (lo + s)) / s\<rceil>)"
    by linarith
  with c show ?thesis unfolding steps_def by (simp only:)
qed

lemma steps_0: "0 < s \<Longrightarrow> \<not> lo < hi \<Longrightarrow> steps lo hi s = 0"
  unfolding steps_def by (simp add: divide_nonpos_pos)

lemma exact_steps_shift:
  assumes "0 < s" "lo < hi" "exact_steps add lo hi s"
  shows "add lo s = lo + s" and "exact_steps add (lo + s) hi s"
proof -
  have st: "steps lo hi s = Suc (steps (lo + s) hi s)" by (rule steps_Suc[OF assms(1,2)])
  have all: "\<forall>k < Suc (steps (lo + s) hi s). add (lo + of_nat k * s) s = lo + of_nat k * s + s"
    using assms(3) unfolding exact_steps_def st by (simp add: list_all_iff del: upt_Suc)
  from all show "add lo s = lo + s" by (metis add.right_neutral mult_zero_left of_nat_0 zero_less_Suc)
  have "add (lo + s + of_nat k * s) s = lo + s + of_nat k * s + s" if "k < steps (lo + s) hi s" for k
  proof -
    have "add (lo + of_nat (Suc k) * s) s = lo + of_nat (Suc k) * s + s" using all that by blast
    then show ?thesis by (simp add: algebra_simps)
  qed
  then show "exact_steps add (lo + s) hi s" unfolding exact_steps_def by (simp add: list_all_iff)
qed

lemma lat_loop_exact:
  assumes "0 < s"
  shows "exact_steps add lat max_lat s \<Longrightarrow>
         lat_loop add lon lat max_lat ls s tiles =
           Some (tiles @ map (\<lambda>j. Polygon (tile_bounds add lon (lat + of_nat j * s) ls s))
                         [0..<steps lat max_lat s])"
proof (induction "steps lat max_lat s" arbitrary: lat tiles)
  case 0
  then have "\<not> lat < max_lat" using steps_Suc[OF assms, of lat max_lat] by auto
  then show ?case using 0 by (subst lat_loop.simps) simp
next
  case (Suc n)
  then have lt: "lat < max_lat" using steps_0[OF assms, of lat max_lat] by auto
  then have n: "n = steps (lat + s) max_lat s"
    using steps_Suc[OF assms lt] Suc(2) by simp
  note sh = exact_steps_shift[OF assms lt Suc(3)]
  have "[0..<Suc n] = 0 # map Suc [0..<n]"
    by (simp add: upt_conv_Cons map_Suc_upt del: upt_Suc)
  then show ?case using lt Suc(1)[OF n sh(2)] Suc(2)[symmetric] n sh(1)
    by (subst lat_loop.simps) (simp add: comp_def algebra_simps del: upt_Suc)
qed

lemma lon_loop_exact:
  assumes "0 < s" "exact_steps add min_lat max_lat s"
  shows "exact_steps add lon max_lon s \<Longrightarrow>
         lon_loop add lon max_lon min_lat max_lat s s tiles =
           Some (tiles @ concat (map (\<lambda>i. map (\<lambda>j. Polygon (tile_bounds add (lon + of_nat i * s)
                                                        (min_lat + of_nat j * s) s s))
                                              [0..<steps min_lat max_lat s])
                                     [0..<steps lon max_lon s]))"
proof (induction "steps lon max_lon s" arbitrary: lon tiles)
  case 0
  then have "\<not> lon < max_lon" using steps_Suc[OF assms(1), of lon max_lon] by auto
  then show ?case using 0 by (subst lon_loop.simps) simp
next
  case (Suc n)
  then have lt: "lon < max_lon" using steps_0[OF assms(1), of lon max_lon] by auto
  then have n: "n = steps (lon + s) max_lon s"
    using steps_Suc[OF assms(1) lt] Suc(2) by simp
  note sh = exact_steps_shift[OF assms(1) lt Suc(3)]
  have "[0..<Suc n] = 0 # map Suc [0..<n]"
    by (simp add: upt_conv_Cons map_Suc_upt del: upt_Suc)
  then show ?case using lt Suc(1)[OF n sh(2)] Suc(2)[symmetric] n sh(1)
    by (subst lon_loop.simps)
       (simp add: lat_loop_exact[OF assms(1,2)] comp_def algebra_simps del: upt_Suc)
qed

lemma create_grid_tiles_exact:
  assumes "0 < tile_size" "exact_steps add min_lon max_lon tile_size"
    "exact_steps add min_lat max_lat tile_size"
  shows "create_grid_tiles add min_lon max_lon min_lat max_lat tile_size =
     Some (concat (map (\<lambda>i. map (\<lambda>j. Polygon (tile_bounds add (min_lon + of_nat i * tile_size)
                                          (min_lat + of_nat j * tile_size) tile_size tile_size))
                                [0..<steps min_lat max_lat tile_size])
                       [0..<steps min_lon max_lon tile_size]))"
  unfolding create_grid_tiles_def Let_def by (simp add: lon_loop_exact[OF assms(1,3,2)])

lemma length_concat_grid:
  "length (concat (map (\<lambda>i. map (f i) [0..<m]) [0..<n])) = n * m"
  by (induction n) simp_all


text \<open>
  The double additions of the loops are not those of exact arithmetic: ten additions of
  the double 0.1 stay below 1, so a box from 0 to 1 gets an eleventh row and column;
  and on the Amazon box a step of the double 1e-17 is absorbed.
\<close>

lemma ten_tenths_below_one:
  "fold (\<lambda>k x. double_add x (round_to_double (1 / 10))) [0..<10] 0 < 1"
  by code_simp


lemma amazon_exact_steps:
  "exact_steps double_add (- 74) (- 34) 5" "exact_steps double_add (- 18) 12 5"
  by code_simp+

lemma amazon_steps: "steps (- 74) (- 34) 5 = 8" "steps (- 18) 12 5 = 6"
  by code_simp+




section \<open>Properties of the Amazon views\<close>

lemma collect_results_all_Inr:
  "\<forall>x \<in> set xs. f x = Inr (h x) \<Longrightarrow> collect_results (map f xs) = Inr (map h xs)"
  by (induction xs) simp_all

lemma collect_results_Inl:
  "collect_results rs = Inl e \<Longrightarrow> Inl e \<in> set rs"
  by (induction rs) (auto split: sum.splits)

lemma tile_loop_eq:
  "tile_loop process blank grid_tiles acc =
     (case collect_results
             (map (\<lambda>tile. case process tile of Inr img \<Rightarrow> Inr img | Inl e \<Rightarrow> blank tile) grid_tiles) of
        Inl e \<Rightarrow> Inl e
      | Inr imgs \<Rightarrow> Inr (acc @ imgs))"
  by (induction grid_tiles arbitrary: acc) (auto split: sum.splits)

text \<open>
  The handler of the loop builds the same blank image the handler of
  \<^verbatim>\<open>process_tile_month\<close> just failed to build: the outcome of a tile is that of
  \<^verbatim>\<open>process_tile_month\<close>.
\<close>

lemma ndvi_tile_images_eq:
  "ndvi_tile_images svc grid_tiles a b =
     collect_results (map (\<lambda>tile. ndvi_process_tile_month svc tile a b) grid_tiles)"
proof -
  have "(case ndvi_process_tile_month svc tile a b of Inr img \<Rightarrow> Inr img
          | Inl e \<Rightarrow> build svc (ndvi_blank tile)) = ndvi_process_tile_month svc tile a b" for tile
    by (auto simp: ndvi_process_tile_month_def split: sum.splits)
  then show ?thesis
    by (simp add: ndvi_tile_images_def tile_loop_eq split: sum.splits)
qed

lemma lst_tile_images_eq:
  "lst_tile_images svc grid_tiles a b =
     collect_results (map (\<lambda>tile. lst_process_tile_month svc tile a b) grid_tiles)"
proof -
  have "(case lst_process_tile_month svc tile a b of Inr img \<Rightarrow> Inr img
          | Inl e \<Rightarrow> build svc (lst_blank tile)) = lst_process_tile_month svc tile a b" for tile
    by (auto simp: lst_process_tile_month_def split: sum.splits)
  then show ?thesis
    by (simp add: lst_tile_images_def tile_loop_eq split: sum.splits)
qed

lemma ndvi_tile_images_Inr:
  assumes "ndvi_tile_images svc grid_tiles a b = Inr imgs"
  shows "length imgs = length grid_tiles"
    and "\<forall>img \<in> set imgs. \<exists>tile. img = ndvi_tile_image tile a b \<or> img = ndvi_blank tile"
proof -
  have m: "map (\<lambda>tile. ndvi_process_tile_month svc tile a b) grid_tiles = map Inr imgs"
    using assms collect_results_Inr unfolding ndvi_tile_images_eq by blast
  then show "length imgs = length grid_tiles" by (metis length_map)
  show "\<forall>img \<in> set imgs. \<exists>tile. img = ndvi_tile_image tile a b \<or> img = ndvi_blank tile"
  proof
    fix img assume "img \<in> set imgs"
    then have "Inr img \<in> set (map (\<lambda>tile. ndvi_process_tile_month svc tile a b) grid_tiles)"
      unfolding m by simp
    then obtain tile where "ndvi_process_tile_month svc tile a b = Inr img" by auto
    then show "\<exists>tile. img = ndvi_tile_image tile a b \<or> img = ndvi_blank tile"
      by (auto simp: ndvi_process_tile_month_def build_def split: option.splits sum.splits)
  qed
qed

lemma lst_tile_images_Inr:
  assumes "lst_tile_images svc grid_tiles a b = Inr imgs"
  shows "length imgs = length grid_tiles"
    and "\<forall>img \<in> set imgs. \<exists>tile. img = lst_tile_image tile a b \<or> img = lst_blank tile"
proof -
  have m: "map (\<lambda>tile. lst_process_tile_month svc tile a b) grid_tiles = map Inr imgs"
    using assms collect_results_Inr unfolding lst_tile_images_eq by blast
  then show "length imgs = length grid_tiles" by (metis length_map)
  show "\<forall>img \<in> set imgs. \<exists>tile. img = lst_tile_image tile a b \<or> img = lst_blank tile"
  proof
    fix img assume "img \<in> set imgs"
    then have "Inr img \<in> set (map (\<lambda>tile. lst_process_tile_month svc tile a b) grid_tiles)"
      unfolding m by simp
    then obtain tile where "lst_process_tile_month svc tile a b = Inr img" by auto
    then show "\<exists>tile. img = lst_tile_image tile a b \<or> img = lst_blank tile"
      by (auto simp: lst_process_tile_month_def build_def split: option.splits sum.splits)
  qed
qed

text \<open>The grid of the two Amazon views: the loops return, with 48 tiles.\<close>

lemma amazon_grid_length: "\<exists>g. amazon_grid_tiles = Some g \<and> length g = 48"
proof -
  have "create_grid_tiles double_add (- 74) (- 34) (- 18) 12 5 =
     Some (concat (map (\<lambda>i. map (\<lambda>j. Polygon (tile_bounds double_add (- 74 + of_nat i * 5)
                                          (- 18 + of_nat j * 5) 5 5))
                                [0..<steps (- 18) 12 5])
                       [0..<steps (- 74) (- 34) 5]))"
    by (rule create_grid_tiles_exact[OF _ amazon_exact_steps]) simp
  then show ?thesis
    unfolding amazon_grid_tiles_def by (simp add: length_concat_grid amazon_steps)
qed

lemma amazon_grid_nonempty: "\<exists>g. amazon_grid_tiles = Some g \<and> g \<noteq> []"
  using amazon_grid_length by fastforce

lemma pixel_value_masked_zero:
  "pixel_value arch (updateMask m (neq m 0)) p =
     (if pixel_value arch m p = Some 0 then None else pixel_value arch m p)"
  by (cases "pixel_value arch m p") auto












lemma collect_results_returns:
  "\<forall>x \<in> set xs. \<exists>v. f x = Inr v \<Longrightarrow> \<exists>vs. collect_results (map f xs) = Inr vs"
proof (induction xs)
  case Nil
  then show ?case by simp
next
  case (Cons x xs)
  then obtain v vs where "f x = Inr v" "collect_results (map f xs) = Inr vs" by auto
  then show ?case by simp
qed

lemma tile_images_return:
  "\<forall>tile \<in> set grid_tiles. construct_error svc (ndvi_blank tile) = None
     \<Longrightarrow> \<exists>tile_images. ndvi_tile_images svc grid_tiles a b = Inr tile_images"
  "\<forall>tile \<in> set grid_tiles. construct_error svc (lst_blank tile) = None
     \<Longrightarrow> \<exists>tile_images. lst_tile_images svc grid_tiles a b = Inr tile_images"
  unfolding ndvi_tile_images_eq lst_tile_images_eq
  by (rule collect_results_returns,
      auto simp: ndvi_process_tile_month_def lst_process_tile_month_def build_def
        split: option.splits)+

text \<open>
  Claim C8 (the mosaic masks zero pixels). For a non-empty list of tiles, whenever the
  images of the tiles of a month are built, the image of the month is their mosaic
  clipped to the Amazon box, with every pixel of value 0 masked: no pixel of the final
  image has the value 0. The images of the tiles are built whenever the blank images
  can be.
\<close>

theorem mosaic_masks_zero_pixels:
  assumes "grid_tiles \<noteq> []"
  shows "(\<forall>tile_images. ndvi_tile_images svc grid_tiles a b = Inr tile_images
            \<longrightarrow> pixel_value arch (ndvi_merged tile_images a b) p =
                  (if pixel_value arch (clip (mosaic tile_images) amazon_aoi) p = Some 0
                   then None
                   else pixel_value arch (clip (mosaic tile_images) amazon_aoi) p)
              \<and> pixel_value arch (ndvi_merged tile_images a b) p \<noteq> Some 0)
       \<and> (\<forall>tile_images. lst_tile_images svc grid_tiles a b = Inr tile_images
            \<longrightarrow> pixel_value arch (lst_merged tile_images a b) p =
                  (if pixel_value arch (clip (mosaic tile_images) amazon_aoi) p = Some 0
                   then None
                   else pixel_value arch (clip (mosaic tile_images) amazon_aoi) p)
              \<and> pixel_value arch (lst_merged tile_images a b) p \<noteq> Some 0)
       \<and> ((\<forall>tile \<in> set grid_tiles. construct_error svc (ndvi_blank tile) = None)
            \<longrightarrow> (\<exists>tile_images. ndvi_tile_images svc grid_tiles a b = Inr tile_images))
       \<and> ((\<forall>tile \<in> set grid_tiles. construct_error svc (lst_blank tile) = None)
            \<longrightarrow> (\<exists>tile_images. lst_tile_images svc grid_tiles a b = Inr tile_images))"
proof -
  have n: "pixel_value arch (ndvi_merged tile_images a b) p =
                  (if pixel_value arch (clip (mosaic tile_images) amazon_aoi) p = Some 0
                   then None
                   else pixel_value arch (clip (mosaic tile_images) amazon_aoi) p)
              \<and> pixel_value arch (ndvi_merged tile_images a b) p \<noteq> Some 0"
    if r: "ndvi_tile_images svc grid_tiles a b = Inr tile_images" for tile_images
  proof -
    have "tile_images \<noteq> []" using ndvi_tile_images_Inr(1)[OF r] assms by auto
    then have eq: "ndvi_merged tile_images a b =
        updateMask (clip (mosaic tile_images) amazon_aoi) (neq (clip (mosaic tile_images) amazon_aoi) 0)"
      by (simp add: ndvi_merged_def Let_def)
    show ?thesis unfolding eq pixel_value_masked_zero by simp
  qed
  have l: "pixel_value arch (lst_merged tile_images a b) p =
                  (if pixel_value arch (clip (mosaic tile_images) amazon_aoi) p = Some 0
                   then None
                   else pixel_value arch (clip (mosaic tile_images) amazon_aoi) p)
              \<and> pixel_value arch (lst_merged tile_images a b) p \<noteq> Some 0"
    if r: "lst_tile_images svc grid_tiles a b = Inr tile_images" for tile_images
  proof -
    have "tile_images \<noteq> []" using lst_tile_images_Inr(1)[OF r] assms by auto
    then have eq: "lst_merged tile_images a b =
        updateMask (clip (mosaic tile_images) amazon_aoi) (neq (clip (mosaic tile_images) amazon_aoi) 0)"
      by (simp add: lst_merged_def Let_def)
    show ?thesis unfolding eq pixel_value_masked_zero by simp
  qed
  show ?thesis using n l tile_images_return[of grid_tiles svc a b] by blast
qed

lemma stub_tile_images:
  "ndvi_tile_images stub_service g a b = Inr (map (\<lambda>tile. ndvi_tile_image tile a b) g)"
  "lst_tile_images stub_service g a b = Inr (map (\<lambda>tile. lst_tile_image tile a b) g)"
  unfolding ndvi_tile_images_eq lst_tile_images_eq
  by (rule collect_results_all_Inr,
      simp add: ndvi_process_tile_month_def lst_process_tile_month_def build_def stub_service_def)+

theorem mosaic_masks_zero_pixels_witness:
  "\<exists>g ndvi_images lst_images. amazon_grid_tiles = Some g \<and> g \<noteq> []
      \<and> ndvi_tile_images stub_service g \<lparr>year = 2024, month = 11, day = 3\<rparr> \<lparr>year = 2024, month = 12, day = 3\<rparr>
          = Inr ndvi_images
      \<and> lst_tile_images stub_service g \<lparr>year = 2024, month = 11, day = 3\<rparr> \<lparr>year = 2024, month = 12, day = 3\<rparr>
          = Inr lst_images
      \<and> pixel_value zero_archive
           (ndvi_merged ndvi_images \<lparr>year = 2024, month = 11, day = 3\<rparr> \<lparr>year = 2024, month = 12, day = 3\<rparr>)
           (- 50, 3) \<noteq> Some 0
      \<and> pixel_value zero_archive
           (lst_merged lst_images \<lparr>year = 2024, month = 11, day = 3\<rparr> \<lparr>year = 2024, month = 12, day = 3\<rparr>)
           (- 50, 3) \<noteq> Some 0"
proof -
  let ?a = "\<lparr>year = 2024, month = 11, day = 3\<rparr>" and ?b = "\<lparr>year = 2024, month = 12, day = 3\<rparr>"
  obtain g where g: "amazon_grid_tiles = Some g" "g \<noteq> []" using amazon_grid_nonempty by blast
  note t = mosaic_masks_zero_pixels[OF g(2), of stub_service ?a ?b zero_archive "(- 50, 3)"]
  show ?thesis
    using t g stub_tile_images(1)[of g ?a ?b] stub_tile_images(2)[of g ?a ?b] by blast
qed

section \<open>The constants of the views\<close>

lemma cloud_thresholds_s2_ndvi: "cloud_thresholds (s2_ndvi region a b cloud) = [cloud]"
  by (simp add: s2_ndvi_def)

lemma cloud_thresholds_modis_lst: "cloud_thresholds (modis_lst region a b) = []"
  by (simp add: modis_lst_def)

lemma thresholds_ndvi_tile_images:
  assumes "ndvi_tile_images svc grid_tiles a b = Inr tile_images"
  shows "set (concat (map image_thresholds tile_images)) \<subseteq> {30}"
proof -
  have "set (image_thresholds img) \<subseteq> {30}" if "img \<in> set tile_images" for img
    using ndvi_tile_images_Inr(2)[OF assms] that
    by (auto simp: ndvi_tile_image_def ndvi_blank_def cloud_thresholds_s2_ndvi)
  then show ?thesis by auto
qed

text \<open>
  Claim C9, as the code has it. The cloud-cover thresholds belong to the three Sentinel-2
  (NDVI) views: 30 in the Amazon NDVI view (per tile, in the whole-region query, and so in
  every handle the view sends for a month), 50 in the point NDVI view and 100 in the
  custom NDVI view. The three MODIS (LST) views filter by no cloud cover at all. The pool
  has 3 workers in both Amazon views and 4 in both custom views.
\<close>

theorem view_constants:
  "image_thresholds (ndvi_tile_image tile a b) = [30]
   \<and> image_thresholds (ndvi_whole_region a b) = [30]
   \<and> (\<forall>tile_images. ndvi_tile_images svc grid_tiles a b = Inr tile_images
          \<longrightarrow> set (image_thresholds (ndvi_merged tile_images a b)) \<subseteq> {30})
   \<and> cloud_thresholds (point_ndvi_collection point a b) = [50]
   \<and> cloud_thresholds (custom_ndvi_collection aoi a b) = [100]
   \<and> image_thresholds (lst_tile_image tile a b) = []
   \<and> image_thresholds (lst_whole_region a b) = []
   \<and> cloud_thresholds (modis_lst region a b) = []
   \<and> amazon_ndvi_fan_out svc env grid_tiles end_date
        = fan_out env 3 (amazon_ndvi_process_month svc grid_tiles end_date)
   \<and> amazon_lst_fan_out svc env grid_tiles end_date
        = fan_out env 3 (amazon_lst_process_month svc grid_tiles end_date)
   \<and> custom_ndvi_fan_out svc env aoi end_date
        = fan_out env 4 (custom_ndvi_process_month svc aoi end_date)
   \<and> custom_lst_fan_out svc env aoi end_date
        = fan_out env 4 (custom_lst_process_month svc aoi end_date)"
proof -
  have m: "set (image_thresholds (ndvi_merged tile_images a b)) \<subseteq> {30}"
    if "ndvi_tile_images svc grid_tiles a b = Inr tile_images" for tile_images
    using thresholds_ndvi_tile_images[OF that]
    by (simp add: ndvi_merged_def Let_def ndvi_whole_region_def cloud_thresholds_s2_ndvi)
  have rest: "image_thresholds (ndvi_tile_image tile a b) = [30]
   \<and> image_thresholds (ndvi_whole_region a b) = [30]
   \<and> cloud_thresholds (point_ndvi_collection point a b) = [50]
   \<and> cloud_thresholds (custom_ndvi_collection aoi a b) = [100]
   \<and> image_thresholds (lst_tile_image tile a b) = []
   \<and> image_thresholds (lst_whole_region a b) = []
   \<and> cloud_thresholds (modis_lst region a b) = []
   \<and> amazon_ndvi_fan_out svc env grid_tiles end_date
        = fan_out env 3 (amazon_ndvi_process_month svc grid_tiles end_date)
   \<and> amazon_lst_fan_out svc env grid_tiles end_date
        = fan_out env 3 (amazon_lst_process_month svc grid_tiles end_date)
   \<and> custom_ndvi_fan_out svc env aoi end_date
        = fan_out env 4 (custom_ndvi_process_month svc aoi end_date)
   \<and> custom_lst_fan_out svc env aoi end_date
        = fan_out env 4 (custom_lst_process_month svc aoi end_date)"
    by (simp add: ndvi_tile_image_def ndvi_whole_region_def lst_tile_image_def lst_whole_region_def
        to_celsius_def point_ndvi_collection_def custom_ndvi_collection_def
        cloud_thresholds_s2_ndvi cloud_thresholds_modis_lst
        amazon_ndvi_fan_out_def amazon_lst_fan_out_def custom_ndvi_fan_out_def custom_lst_fan_out_def
        amazon_ndvi_max_workers_def amazon_lst_max_workers_def
        custom_ndvi_max_workers_def custom_lst_max_workers_def)
  show ?thesis using m rest by blast
qed

theorem view_constants_witness:
  "\<exists>g tile_images. amazon_grid_tiles = Some g
      \<and> ndvi_tile_images stub_service g \<lparr>year = 2024, month = 11, day = 3\<rparr> \<lparr>year = 2024, month = 12, day = 3\<rparr>
          = Inr tile_images
      \<and> length tile_images = 48
      \<and> set (image_thresholds
            (ndvi_merged tile_images \<lparr>year = 2024, month = 11, day = 3\<rparr> \<lparr>year = 2024, month = 12, day = 3\<rparr>))
          \<subseteq> {30}"
proof -
  let ?a = "\<lparr>year = 2024, month = 11, day = 3\<rparr>" and ?b = "\<lparr>year = 2024, month = 12, day = 3\<rparr>"
  obtain g where g: "amazon_grid_tiles = Some g" "length g = 48" using amazon_grid_length by blast
  have r: "ndvi_tile_images stub_service g ?a ?b = Inr (map (\<lambda>tile. ndvi_tile_image tile ?a ?b) g)"
    by (rule stub_tile_images(1))
  note t = view_constants[where svc = stub_service and grid_tiles = g and a = ?a and b = ?b]
  have "set (image_thresholds (ndvi_merged (map (\<lambda>tile. ndvi_tile_image tile ?a ?b) g) ?a ?b)) \<subseteq> {30}"
    using t r by blast
  then show ?thesis using g r by (intro exI[of _ g] exI[of _ "map (\<lambda>tile. ndvi_tile_image tile ?a ?b) g"]) simp
qed

text \<open>
  Claim C9, as stated, fails: the handle of a tile of the Amazon LST view and the
  collection of the custom LST view carry no cloud-cover threshold, neither 30 nor 100.
\<close>

theorem lst_views_have_no_cloud_filter:
  "30 \<notin> set (image_thresholds
        (lst_tile_image (Polygon (tile_bounds double_add (- 74) (- 18) 5 5))
           \<lparr>year = 2024, month = 11, day = 3\<rparr> \<lparr>year = 2024, month = 12, day = 3\<rparr>))
   \<and> 30 \<notin> set (image_thresholds
        (lst_whole_region \<lparr>year = 2024, month = 11, day = 3\<rparr> \<lparr>year = 2024, month = 12, day = 3\<rparr>))
   \<and> 100 \<notin> set (cloud_thresholds
        (modis_lst (Polygon amazon_bounds)
           \<lparr>year = 2024, month = 11, day = 3\<rparr> \<lparr>year = 2024, month = 12, day = 3\<rparr>))"
  by (simp add: lst_tile_image_def lst_whole_region_def to_celsius_def cloud_thresholds_modis_lst)

section \<open>Properties of the statistics views\<close>

lemma round_or_none_null: "round_or_none JNull n = Inr JNull"
  by (simp add: round_or_none_def)

lemma round_or_none_zero: "round_or_none (JFloat 0) n = Inr (JFloat 0)"
  by (simp add: round_or_none_def round_half_even_def)

lemma statistics_entry_keys:
  assumes "statistics_entry stats band n = Inr s"
  shows "\<exists>mean_r min_r max_r.
           s = JObj [(''mean'', mean_r), (''min'', min_r), (''max'', max_r)]
         \<and> round_or_none (dict_get stats (band @ ''_mean'')) n = Inr mean_r
         \<and> round_or_none (dict_get stats (band @ ''_min'')) n = Inr min_r
         \<and> round_or_none (dict_get stats (band @ ''_max'')) n = Inr max_r"
  using assms by (auto simp: statistics_entry_def Let_def split: sum.splits)

lemma statistics_entry_lookup:
  assumes "statistics_entry stats band n = Inr s"
  shows "dict_get stats (band @ ''_mean'') = v \<Longrightarrow> round_or_none v n = Inr r \<Longrightarrow> lookup s ''mean'' = Some r"
    and "dict_get stats (band @ ''_min'') = v \<Longrightarrow> round_or_none v n = Inr r \<Longrightarrow> lookup s ''min'' = Some r"
    and "dict_get stats (band @ ''_max'') = v \<Longrightarrow> round_or_none v n = Inr r \<Longrightarrow> lookup s ''max'' = Some r"
  using statistics_entry_keys[OF assms] by (auto simp: lookup_def)

lemma custom_ndvi_entry:
  assumes "custom_ndvi_process_month svc aoi end_date i = Inr entry"
    and "reduceRegion_getInfo svc
           (clip (median (custom_ndvi_collection aoi (month_start end_date i) (month_end end_date i))) aoi)
           aoi 10 = Inr stats"
  shows "\<exists>s. lookup entry ''statistics'' = Some s \<and> statistics_entry stats ''NDVI'' 4 = Inr s"
    and "lookup entry ''data_available'' = Some (JBool (dict_get stats ''NDVI_mean'' \<noteq> JNull))"
  using assms
  by (auto simp: custom_ndvi_process_month_def Let_def lookup_def split: sum.splits)

lemma custom_lst_entry:
  assumes "custom_lst_process_month svc aoi end_date i = Inr entry"
    and "reduceRegion_getInfo svc
           (clip (to_celsius (median (modis_lst aoi (month_start end_date i) (month_end end_date i)))) aoi)
           aoi 1000 = Inr stats"
  shows "\<exists>s. lookup entry ''statistics'' = Some s \<and> statistics_entry stats ''LST_Day_1km'' 2 = Inr s"
    and "lookup entry ''data_available'' = Some (JBool (dict_get stats ''LST_Day_1km_mean'' \<noteq> JNull))"
  using assms
  by (auto simp: custom_lst_process_month_def Let_def lookup_def split: sum.splits)

lemma point_ndvi_query_null:
  assumes "status (point_ndvi_query svc lon lat mon md) = 200"
    and "sample_value svc
           (median (point_ndvi_collection (Point lon lat) md (date_add md (relativedelta_months 1))))
           (Point lon lat) 10 ''NDVI'' = JNull"
  shows "lookup (data (point_ndvi_query svc lon lat mon md)) ''median_ndvi'' = Some JNull
       \<and> lookup (data (point_ndvi_query svc lon lat mon md)) ''data_available'' = Some (JBool False)"
  using assms
  by (auto simp: point_ndvi_query_def Let_def lookup_def error_response_def Response_def
      round_or_none_def split: sum.splits option.splits)

lemma point_lst_query_null:
  assumes "status (point_lst_query svc lon lat mon md) = 200"
    and "sample_value svc
           (to_celsius (median (modis_lst (Point lon lat) md (date_add md (relativedelta_months 1)))))
           (Point lon lat) 1000 ''LST_Day_1km'' = JNull"
  shows "lookup (data (point_lst_query svc lon lat mon md)) ''median_lst'' = Some JNull
       \<and> lookup (data (point_lst_query svc lon lat mon md)) ''data_available'' = Some (JBool False)"
  using assms
  by (auto simp: point_lst_query_def Let_def lookup_def error_response_def Response_def
      round_or_none_def split: sum.splits option.splits)

lemma sample_value_none:
  "sample_size_getInfo svc img point scale = Inl e \<Longrightarrow> sample_value svc img point scale band = JNull"
  "sample_size_getInfo svc img point scale = Inr n \<Longrightarrow> n \<le> 0 \<Longrightarrow> sample_value svc img point scale band = JNull"
  by (simp_all add: sample_value_def)

text \<open>The entry of a custom view, read through its statistics.\<close>

lemma statistics_of_entry:
  assumes "lookup entry ''statistics'' = Some s" and "statistics_entry stats band n = Inr s"
    and "lookup entry ''data_available'' = Some (JBool (dict_get stats (band @ ''_mean'') \<noteq> JNull))"
  shows "(dict_get stats (band @ ''_mean'') = JNull
           \<longrightarrow> lookup_in entry ''statistics'' ''mean'' = Some JNull
             \<and> lookup entry ''data_available'' = Some (JBool False))
      \<and> (dict_get stats (band @ ''_min'') = JNull \<longrightarrow> lookup_in entry ''statistics'' ''min'' = Some JNull)
      \<and> (dict_get stats (band @ ''_max'') = JNull \<longrightarrow> lookup_in entry ''statistics'' ''max'' = Some JNull)
      \<and> (dict_get stats (band @ ''_mean'') = JFloat 0
           \<longrightarrow> lookup_in entry ''statistics'' ''mean'' = Some (JFloat 0)
             \<and> lookup entry ''data_available'' = Some (JBool True))
      \<and> (dict_get stats (band @ ''_mean'') \<noteq> JNull
           \<longrightarrow> lookup entry ''data_available'' = Some (JBool True))"
  using statistics_entry_lookup[OF assms(2), of _ JNull] statistics_entry_lookup(1)[OF assms(2), of "JFloat 0"]
    assms(1,3) round_or_none_null[of n] round_or_none_zero[of n]
  by (auto simp: lookup_in_def)

text \<open>
  Claim C5 (no data is null, not zero). An entry of a custom view has the key of each
  statistic; a statistic the service reports as \<^verbatim>\<open>None\<close> is stored as an explicit
  \<^verbatim>\<open>null\<close>, and \<open>data_available\<close> is stored as false exactly when the mean is
  \<^verbatim>\<open>None\<close>: an observed mean of 0 is stored as the number 0 with \<open>data_available\<close> true.
  In a point view, when sampling gives no feature (or raises), the median is stored as
  \<^verbatim>\<open>null\<close> and \<open>data_available\<close> as false.
\<close>

theorem no_data_is_null:
  "(custom_ndvi_process_month svc aoi end_date i = Inr entry
      \<and> reduceRegion_getInfo svc
           (clip (median (custom_ndvi_collection aoi (month_start end_date i) (month_end end_date i))) aoi)
           aoi 10 = Inr stats
    \<longrightarrow> (dict_get stats ''NDVI_mean'' = JNull
           \<longrightarrow> lookup_in entry ''statistics'' ''mean'' = Some JNull
             \<and> lookup entry ''data_available'' = Some (JBool False))
      \<and> (dict_get stats ''NDVI_min'' = JNull \<longrightarrow> lookup_in entry ''statistics'' ''min'' = Some JNull)
      \<and> (dict_get stats ''NDVI_max'' = JNull \<longrightarrow> lookup_in entry ''statistics'' ''max'' = Some JNull)
      \<and> (dict_get stats ''NDVI_mean'' = JFloat 0
           \<longrightarrow> lookup_in entry ''statistics'' ''mean'' = Some (JFloat 0)
             \<and> lookup entry ''data_available'' = Some (JBool True))
      \<and> (dict_get stats ''NDVI_mean'' \<noteq> JNull
           \<longrightarrow> lookup entry ''data_available'' = Some (JBool True)))
   \<and> (custom_lst_process_month svc aoi end_date i = Inr lst_entry
      \<and> reduceRegion_getInfo svc
           (clip (to_celsius (median (modis_lst aoi (month_start end_date i) (month_end end_date i)))) aoi)
           aoi 1000 = Inr lst_stats
    \<longrightarrow> (dict_get lst_stats ''LST_Day_1km_mean'' = JNull
           \<longrightarrow> lookup_in lst_entry ''statistics'' ''mean'' = Some JNull
             \<and> lookup lst_entry ''data_available'' = Some (JBool False))
      \<and> (dict_get lst_stats ''LST_Day_1km_min'' = JNull
           \<longrightarrow> lookup_in lst_entry ''statistics'' ''min'' = Some JNull)
      \<and> (dict_get lst_stats ''LST_Day_1km_max'' = JNull
           \<longrightarrow> lookup_in lst_entry ''statistics'' ''max'' = Some JNull)
      \<and> (dict_get lst_stats ''LST_Day_1km_mean'' = JFloat 0
           \<longrightarrow> lookup_in lst_entry ''statistics'' ''mean'' = Some (JFloat 0)
             \<and> lookup lst_entry ''data_available'' = Some (JBool True))
      \<and> (dict_get lst_stats ''LST_Day_1km_mean'' \<noteq> JNull
           \<longrightarrow> lookup lst_entry ''data_available'' = Some (JBool True)))
   \<and> (status (point_ndvi_query svc lon lat mon md) = 200
      \<and> sample_value svc
           (median (point_ndvi_collection (Point lon lat) md (date_add md (relativedelta_months 1))))
           (Point lon lat) 10 ''NDVI'' = JNull
    \<longrightarrow> lookup (data (point_ndvi_query svc lon lat mon md)) ''median_ndvi'' = Some JNull
      \<and> lookup (data (point_ndvi_query svc lon lat mon md)) ''data_available'' = Some (JBool False))
   \<and> (status (point_lst_query svc lon lat mon md) = 200
      \<and> sample_value svc
           (to_celsius (median (modis_lst (Point lon lat) md (date_add md (relativedelta_months 1)))))
           (Point lon lat) 1000 ''LST_Day_1km'' = JNull
    \<longrightarrow> lookup (data (point_lst_query svc lon lat mon md)) ''median_lst'' = Some JNull
      \<and> lookup (data (point_lst_query svc lon lat mon md)) ''data_available'' = Some (JBool False))
   \<and> (\<forall>img point scale band e. sample_size_getInfo svc img point scale = Inl e
          \<longrightarrow> sample_value svc img point scale band = JNull)
   \<and> (\<forall>img point scale band n. sample_size_getInfo svc img point scale = Inr n \<and> n \<le> 0
          \<longrightarrow> sample_value svc img point scale band = JNull)"
proof -
  have a: "(dict_get stats ''NDVI_mean'' = JNull
           \<longrightarrow> lookup_in entry ''statistics'' ''mean'' = Some JNull
             \<and> lookup entry ''data_available'' = Some (JBool False))
      \<and> (dict_get stats ''NDVI_min'' = JNull \<longrightarrow> lookup_in entry ''statistics'' ''min'' = Some JNull)
      \<and> (dict_get stats ''NDVI_max'' = JNull \<longrightarrow> lookup_in entry ''statistics'' ''max'' = Some JNull)
      \<and> (dict_get stats ''NDVI_mean'' = JFloat 0
           \<longrightarrow> lookup_in entry ''statistics'' ''mean'' = Some (JFloat 0)
             \<and> lookup entry ''data_available'' = Some (JBool True))
      \<and> (dict_get stats ''NDVI_mean'' \<noteq> JNull
           \<longrightarrow> lookup entry ''data_available'' = Some (JBool True))"
    if h: "custom_ndvi_process_month svc aoi end_date i = Inr entry"
      "reduceRegion_getInfo svc
           (clip (median (custom_ndvi_collection aoi (month_start end_date i) (month_end end_date i))) aoi)
           aoi 10 = Inr stats"
  proof -
    from custom_ndvi_entry[OF h] obtain s where
      s: "lookup entry ''statistics'' = Some s" "statistics_entry stats ''NDVI'' 4 = Inr s" and
      d: "lookup entry ''data_available'' = Some (JBool (dict_get stats (''NDVI'' @ ''_mean'') \<noteq> JNull))"
      by auto
    show ?thesis using statistics_of_entry[OF s d] by simp
  qed
  have b: "(dict_get lst_stats ''LST_Day_1km_mean'' = JNull
           \<longrightarrow> lookup_in lst_entry ''statistics'' ''mean'' = Some JNull
             \<and> lookup lst_entry ''data_available'' = Some (JBool False))
      \<and> (dict_get lst_stats ''LST_Day_1km_min'' = JNull
           \<longrightarrow> lookup_in lst_entry ''statistics'' ''min'' = Some JNull)
      \<and> (dict_get lst_stats ''LST_Day_1km_max'' = JNull
           \<longrightarrow> lookup_in lst_entry ''statistics'' ''max'' = Some JNull)
      \<and> (dict_get lst_stats ''LST_Day_1km_mean'' = JFloat 0
           \<longrightarrow> lookup_in lst_entry ''statistics'' ''mean'' = Some (JFloat 0)
             \<and> lookup lst_entry ''data_available'' = Some (JBool True))
      \<and> (dict_get lst_stats ''LST_Day_1km_mean'' \<noteq> JNull
           \<longrightarrow> lookup lst_entry ''data_available'' = Some (JBool True))"
    if h: "custom_lst_process_month svc aoi end_date i = Inr lst_entry"
      "reduceRegion_getInfo svc
           (clip (to_celsius (median (modis_lst aoi (month_start end_date i) (month_end end_date i)))) aoi)
           aoi 1000 = Inr lst_stats"
  proof -
    from custom_lst_entry[OF h] obtain s where
      s: "lookup lst_entry ''statistics'' = Some s" "statistics_entry lst_stats ''LST_Day_1km'' 2 = Inr s" and
      d: "lookup lst_entry ''data_available''
            = Some (JBool (dict_get lst_stats (''LST_Day_1km'' @ ''_mean'') \<noteq> JNull))"
      by auto
    show ?thesis using statistics_of_entry[OF s d] by simp
  qed
  show ?thesis
    using a b point_ndvi_query_null[of svc lon lat mon md] point_lst_query_null[of svc lon lat mon md]
      sample_value_none[of svc]
    by blast
qed

theorem no_data_is_null_witness:
  "\<exists>entry lst_entry.
      custom_ndvi_process_month stub_service amazon_aoi \<lparr>year = 2025, month = 11, day = 3\<rparr> 0 = Inr entry
    \<and> custom_lst_process_month stub_service amazon_aoi \<lparr>year = 2025, month = 11, day = 3\<rparr> 0 = Inr lst_entry
    \<and> dict_get [] ''NDVI_mean'' = JNull
    \<and> lookup_in entry ''statistics'' ''mean'' = Some JNull
    \<and> lookup entry ''data_available'' = Some (JBool False)
    \<and> lookup_in lst_entry ''statistics'' ''mean'' = Some JNull
    \<and> lookup lst_entry ''data_available'' = Some (JBool False)
    \<and> status (point_ndvi_query stub_service (JFloat (- 60)) (JFloat (- 3)) (JStr ''2024-06'')
                 \<lparr>year = 2024, month = 6, day = 1\<rparr>) = 200
    \<and> lookup (data (point_ndvi_query stub_service (JFloat (- 60)) (JFloat (- 3)) (JStr ''2024-06'')
                 \<lparr>year = 2024, month = 6, day = 1\<rparr>)) ''median_ndvi'' = Some JNull
    \<and> lookup (data (point_lst_query stub_service (JFloat (- 60)) (JFloat (- 3)) (JStr ''2024-06'')
                 \<lparr>year = 2024, month = 6, day = 1\<rparr>)) ''data_available'' = Some (JBool False)"
proof -
  let ?d = "\<lparr>year = 2025, month = 11, day = 3\<rparr>" and ?m = "\<lparr>year = 2024, month = 6, day = 1\<rparr>"
  obtain entry where e: "custom_ndvi_process_month stub_service amazon_aoi ?d 0 = Inr entry"
    by (simp add: custom_ndvi_process_month_def stub_service_def statistics_entry_def
        round_or_none_def dict_get_def Let_def)
  obtain lst_entry where e2: "custom_lst_process_month stub_service amazon_aoi ?d 0 = Inr lst_entry"
    by (simp add: custom_lst_process_month_def stub_service_def statistics_entry_def
        round_or_none_def dict_get_def Let_def)
  have r: "reduceRegion_getInfo stub_service img g scale = Inr []" for img g scale
    by (simp add: stub_service_def)
  have n: "dict_get [] k = JNull" for k by (simp add: dict_get_def)
  have s: "sample_value stub_service img g scale band = JNull" for img g scale band
    by (simp add: sample_value_def stub_service_def)
  have p: "status (point_ndvi_query stub_service (JFloat (- 60)) (JFloat (- 3)) (JStr ''2024-06'') ?m) = 200"
    by (simp add: point_ndvi_query_def stub_service_def Let_def round_or_none_def sample_value_def
        Response_def)
  have q: "status (point_lst_query stub_service (JFloat (- 60)) (JFloat (- 3)) (JStr ''2024-06'') ?m) = 200"
    by (simp add: point_lst_query_def stub_service_def Let_def round_or_none_def sample_value_def
        Response_def)
  note t = no_data_is_null[where svc = stub_service and aoi = amazon_aoi and end_date = ?d and i = 0
      and entry = entry and stats = "[]" and lst_entry = lst_entry and lst_stats = "[]"
      and lon = "JFloat (- 60)" and lat = "JFloat (- 3)" and mon = "JStr ''2024-06''" and md = ?m]
  show ?thesis using t e e2 r n s p q by (intro exI[of _ entry] exI[of _ lst_entry]) simp
qed

section \<open>Properties of the point views\<close>

lemma point_query_status:
  "status (point_ndvi_query svc lon lat mon md) = 200 \<or> status (point_ndvi_query svc lon lat mon md) = 500"
  "status (point_lst_query svc lon lat mon md) = 200 \<or> status (point_lst_query svc lon lat mon md) = 500"
  by (auto simp: point_ndvi_query_def point_lst_query_def Let_def error_response_def Response_def
      split: sum.splits option.splits)

text \<open>
  Claim C10 (latitude and longitude take precedence). Two requests that agree on the
  latitude, longitude and month fields, with both coordinates present, get the same
  response from each point view, whatever their geometry fields hold: the point is
  resolved as if no geometry had been sent, and for numeric fields it is the pair of
  their float values.
\<close>

theorem latlon_takes_precedence:
  assumes "dict_get req1 ''latitude'' = dict_get req2 ''latitude''"
    and "dict_get req1 ''longitude'' = dict_get req2 ''longitude''"
    and "dict_get req1 ''month'' = dict_get req2 ''month''"
    and "dict_get req1 ''latitude'' \<noteq> JNull"
    and "dict_get req1 ''longitude'' \<noteq> JNull"
  shows "PointNDVIMonthlyAPI_post rt svc req1 = PointNDVIMonthlyAPI_post rt svc req2
       \<and> PointLSTMonthlyAPI_post rt svc req1 = PointLSTMonthlyAPI_post rt svc req2
       \<and> resolve_point rt (dict_get req1 ''latitude'') (dict_get req1 ''longitude'')
            (dict_get req1 ''geometry'')
          = resolve_point rt (dict_get req1 ''latitude'') (dict_get req1 ''longitude'') JNull
       \<and> (\<forall>x y. py_float rt (dict_get req1 ''latitude'') = Inr y
                \<and> py_float rt (dict_get req1 ''longitude'') = Inr x
              \<longrightarrow> resolve_point rt (dict_get req1 ''latitude'') (dict_get req1 ''longitude'')
                    (dict_get req1 ''geometry'') = Value (JFloat x, JFloat y))"
proof -
  have r: "resolve_point rt (dict_get req1 ''latitude'') (dict_get req1 ''longitude'') g
         = resolve_point rt (dict_get req1 ''latitude'') (dict_get req1 ''longitude'') g'" for g g'
    using assms(4,5) by (simp add: resolve_point_def)
  have v: "resolve_point rt (dict_get req1 ''latitude'') (dict_get req1 ''longitude'') g
         = Value (JFloat x, JFloat y)"
    if "py_float rt (dict_get req1 ''latitude'') = Inr y" "py_float rt (dict_get req1 ''longitude'') = Inr x"
    for g x y
    using assms(4,5) that by (simp add: resolve_point_def)
  have n: "PointNDVIMonthlyAPI_post rt svc req1 = PointNDVIMonthlyAPI_post rt svc req2"
    unfolding PointNDVIMonthlyAPI_post_def Let_def assms(1)[symmetric] assms(2)[symmetric]
      assms(3)[symmetric]
    using r[of "dict_get req1 ''geometry''" "dict_get req2 ''geometry''"] by simp
  have l: "PointLSTMonthlyAPI_post rt svc req1 = PointLSTMonthlyAPI_post rt svc req2"
    unfolding PointLSTMonthlyAPI_post_def Let_def assms(1)[symmetric] assms(2)[symmetric]
      assms(3)[symmetric]
    using r[of "dict_get req1 ''geometry''" "dict_get req2 ''geometry''"] by simp
  show ?thesis using n l r v by blast
qed

theorem latlon_takes_precedence_witness:
  "dict_get (latlon_request (JStr ''no geometry at all'')) ''latitude'' = dict_get (latlon_request other_point) ''latitude''
   \<and> dict_get (latlon_request (JStr ''no geometry at all'')) ''longitude'' = dict_get (latlon_request other_point) ''longitude''
   \<and> dict_get (latlon_request (JStr ''no geometry at all'')) ''month'' = dict_get (latlon_request other_point) ''month''
   \<and> dict_get (latlon_request (JStr ''no geometry at all'')) ''latitude'' \<noteq> JNull
   \<and> dict_get (latlon_request (JStr ''no geometry at all'')) ''longitude'' \<noteq> JNull
   \<and> PointNDVIMonthlyAPI_post stub_runtime stub_service (latlon_request (JStr ''no geometry at all''))
       = PointNDVIMonthlyAPI_post stub_runtime stub_service (latlon_request other_point)
   \<and> PointLSTMonthlyAPI_post stub_runtime stub_service (latlon_request (JStr ''no geometry at all''))
       = PointLSTMonthlyAPI_post stub_runtime stub_service (latlon_request other_point)
   \<and> resolve_point stub_runtime (JFloat (- 3)) (JFloat (- 60)) (JStr ''no geometry at all'')
       = Value (JFloat (- 60), JFloat (- 3))"
proof -
  let ?r1 = "latlon_request (JStr ''no geometry at all'')" and ?r2 = "latlon_request other_point"
  have h: "dict_get ?r1 ''latitude'' = dict_get ?r2 ''latitude''"
    "dict_get ?r1 ''longitude'' = dict_get ?r2 ''longitude''"
    "dict_get ?r1 ''month'' = dict_get ?r2 ''month''"
    "dict_get ?r1 ''latitude'' \<noteq> JNull"
    "dict_get ?r1 ''longitude'' \<noteq> JNull"
    by (simp_all add: latlon_request_def dict_get_def)
  have g: "dict_get ?r1 ''latitude'' = JFloat (- 3)" "dict_get ?r1 ''longitude'' = JFloat (- 60)"
    "dict_get ?r1 ''geometry'' = JStr ''no geometry at all''"
    by (simp_all add: latlon_request_def dict_get_def)
  have f: "py_float stub_runtime (JFloat (- 3)) = Inr (- 3)" "py_float stub_runtime (JFloat (- 60)) = Inr (- 60)"
    by simp_all
  from latlon_takes_precedence[OF h, of stub_runtime stub_service] show ?thesis
    using h f unfolding g by blast
qed

text \<open>
  The malformed requests the views do refuse. The response is a 400 that does not depend
  on the service: no query is made.
\<close>

lemma custom_missing_geometry:
  assumes "\<not> truthy (dict_get request_data ''geometry'')"
  shows "CustomNDVIAPI_post svc env end_date request_data = bad_request ''Missing geometry parameter''"
    and "CustomLSTAPI_post svc env end_date request_data = bad_request ''Missing geometry parameter''"
  using assms by (simp_all add: CustomNDVIAPI_post_def CustomLSTAPI_post_def)

lemma point_missing_location:
  assumes "dict_get request_data ''latitude'' = JNull \<or> dict_get request_data ''longitude'' = JNull"
    and "dict_get request_data ''geometry'' = JNull"
  shows "PointNDVIMonthlyAPI_post rt svc request_data
           = bad_request ''Missing latitude/longitude or geometry parameter''"
    and "PointLSTMonthlyAPI_post rt svc request_data
           = bad_request ''Missing latitude/longitude or geometry parameter''"
  using assms
  by (auto simp: PointNDVIMonthlyAPI_post_def PointLSTMonthlyAPI_post_def resolve_point_def)

lemma point_invalid_month:
  assumes "resolve_point rt (dict_get request_data ''latitude'') (dict_get request_data ''longitude'')
             (dict_get request_data ''geometry'') = Value p"
    and "truthy (dict_get request_data ''month'')"
    and "strptime_Ym (dict_get request_data ''month'') = Inl (ValueError m)
         \<or> strptime_Ym (dict_get request_data ''month'') = Inl (TypeError m)"
  shows "PointNDVIMonthlyAPI_post rt svc request_data = bad_request ''Invalid month format (use YYYY-MM)''"
    and "PointLSTMonthlyAPI_post rt svc request_data = bad_request ''Invalid month format (use YYYY-MM)''"
  using assms
  by (auto simp: PointNDVIMonthlyAPI_post_def PointLSTMonthlyAPI_post_def parse_month_def
      split: prod.splits)

lemma point_non_numeric_latlon:
  assumes "dict_get request_data ''latitude'' \<noteq> JNull" and "dict_get request_data ''longitude'' \<noteq> JNull"
    and "py_float rt (dict_get request_data ''latitude'') = Inl (ValueError m)
         \<or> py_float rt (dict_get request_data ''latitude'') = Inl (TypeError m)"
  shows "PointNDVIMonthlyAPI_post rt svc request_data = bad_request ''Invalid latitude or longitude format''"
    and "PointLSTMonthlyAPI_post rt svc request_data = bad_request ''Invalid latitude or longitude format''"
  using assms
  by (auto simp: PointNDVIMonthlyAPI_post_def PointLSTMonthlyAPI_post_def resolve_point_def)

text \<open>
  Claim C4 (malformed input is a client error). The point views check that the latitude
  and longitude fields are numeric, and answer 400 when they are not; the coordinates
  inside a geometry object are taken as they are. A request whose geometry is a Point
  with the coordinates \<^verbatim>\<open>["abc", "def"]\<close> and a valid month passes validation with any
  service: the view goes on to query the service for the point \<^verbatim>\<open>("abc", "def")\<close> and
  never answers 400 (with the stub, it answers 200). The same text in the latitude and
  longitude fields is refused with 400.
\<close>

theorem geometry_coordinates_not_validated:
  "PointNDVIMonthlyAPI_post rt svc text_geometry_request
     = point_ndvi_query svc (JStr ''abc'') (JStr ''def'') (JStr ''2024-01'')
         \<lparr>year = 2024, month = 1, day = 1\<rparr>
   \<and> PointLSTMonthlyAPI_post rt svc text_geometry_request
     = point_lst_query svc (JStr ''abc'') (JStr ''def'') (JStr ''2024-01'')
         \<lparr>year = 2024, month = 1, day = 1\<rparr>
   \<and> status (PointNDVIMonthlyAPI_post rt svc text_geometry_request) \<noteq> 400
   \<and> status (PointLSTMonthlyAPI_post rt svc text_geometry_request) \<noteq> 400
   \<and> status (PointNDVIMonthlyAPI_post rt stub_service text_geometry_request) = 200
   \<and> field (data (PointNDVIMonthlyAPI_post rt stub_service text_geometry_request)) ''location''
       = JObj [(''latitude'', JStr ''def''), (''longitude'', JStr ''abc'')]
   \<and> PointNDVIMonthlyAPI_post stub_runtime svc text_latlon_request
       = bad_request ''Invalid latitude or longitude format''
   \<and> PointLSTMonthlyAPI_post stub_runtime svc text_latlon_request
       = bad_request ''Invalid latitude or longitude format''"
proof -
  have n: "PointNDVIMonthlyAPI_post rt svc text_geometry_request
     = point_ndvi_query svc (JStr ''abc'') (JStr ''def'') (JStr ''2024-01'')
         \<lparr>year = 2024, month = 1, day = 1\<rparr>" for svc
    by (simp add: PointNDVIMonthlyAPI_post_def text_geometry_request_def resolve_point_def
        point_of_geometry_def dict_get_def parse_month_def digit_of_def)
  have l: "PointLSTMonthlyAPI_post rt svc text_geometry_request
     = point_lst_query svc (JStr ''abc'') (JStr ''def'') (JStr ''2024-01'')
         \<lparr>year = 2024, month = 1, day = 1\<rparr>" for svc
    by (simp add: PointLSTMonthlyAPI_post_def text_geometry_request_def resolve_point_def
        point_of_geometry_def dict_get_def parse_month_def digit_of_def)
  have sn: "status (PointNDVIMonthlyAPI_post rt svc text_geometry_request) \<noteq> 400"
    unfolding n using point_query_status(1)[of svc "JStr ''abc''" "JStr ''def''" "JStr ''2024-01''"
        "\<lparr>year = 2024, month = 1, day = 1\<rparr>"] by auto
  have sl: "status (PointLSTMonthlyAPI_post rt svc text_geometry_request) \<noteq> 400"
    unfolding l using point_query_status(2)[of svc "JStr ''abc''" "JStr ''def''" "JStr ''2024-01''"
        "\<lparr>year = 2024, month = 1, day = 1\<rparr>"] by auto
  have st: "status (PointNDVIMonthlyAPI_post rt stub_service text_geometry_request) = 200"
    "field (data (PointNDVIMonthlyAPI_post rt stub_service text_geometry_request)) ''location''
       = JObj [(''latitude'', JStr ''def''), (''longitude'', JStr ''abc'')]"
    unfolding n
    by (simp_all add: point_ndvi_query_def stub_service_def Let_def round_or_none_def sample_value_def
        Response_def field_def dict_get_def)
  have b: "PointNDVIMonthlyAPI_post stub_runtime svc text_latlon_request
       = bad_request ''Invalid latitude or longitude format''"
    "PointLSTMonthlyAPI_post stub_runtime svc text_latlon_request
       = bad_request ''Invalid latitude or longitude format''"
    by (simp_all add: PointNDVIMonthlyAPI_post_def PointLSTMonthlyAPI_post_def text_latlon_request_def
        resolve_point_def dict_get_def stub_runtime_def)
  show ?thesis using n l sn sl st b by blast
qed

end
